theory Spec2Isabelle
  imports Complex_Main "HOL-Library.Word"
begin

unbundle bit_operations_syntax

section \<open>ByteCodec and Packetizer: \<open>DataUtils\<close> of \<open>src/src/types.ts\<close>\<close>

text \<open>
  A \<open>Uint8Array\<close> is a list of bytes. A JavaScript number is modelled as an \<open>int\<close>: the
  codecs and the packetizer are used on integers (byte values, lengths, MTUs); fractional
  numbers, infinities and \<open>NaN\<close> arguments are outside the model. Where a JavaScript
  operation can produce \<open>NaN\<close> (\<open>parseInt\<close>) the result is an \<open>int option\<close>, \<open>None\<close>
  standing for \<open>NaN\<close>.
\<close>

type_synonym byte = "8 word"
type_synonym js_number = int

subsection \<open>JavaScript primitives used by the source\<close>

text \<open>\<open>ToInt32\<close>: the operand conversion of \<open>&\<close>, \<open>|\<close>, \<open><<\<close> and \<open>>>\<close>.\<close>

definition toInt32 :: "js_number \<Rightarrow> js_number" where
  "toInt32 v = signed_take_bit 31 v"

text \<open>\<open>ToUint8\<close>: how \<open>new Uint8Array([...])\<close> stores a number.\<close>

definition toUint8 :: "js_number \<Rightarrow> byte" where
  "toUint8 v = word_of_int v"

definition js_and :: "js_number \<Rightarrow> js_number \<Rightarrow> js_number" where
  "js_and a b = toInt32 a AND toInt32 b"

definition js_or :: "js_number \<Rightarrow> js_number \<Rightarrow> js_number" where
  "js_or a b = toInt32 a OR toInt32 b"

text \<open>\<open>a << n\<close>: the shift count is taken modulo 32 and the result is again an Int32.\<close>

definition js_shl :: "js_number \<Rightarrow> js_number \<Rightarrow> js_number" where
  "js_shl a n = toInt32 (push_bit (nat (n mod 32)) (toInt32 a))"

text \<open>\<open>a >> n\<close>: the sign-propagating right shift.\<close>

definition js_sar :: "js_number \<Rightarrow> js_number \<Rightarrow> js_number" where
  "js_sar a n = drop_bit (nat (n mod 32)) (toInt32 a)"

text \<open>
  \<open>data[i]\<close> as an operand of a bitwise operator: the element when \<open>i\<close> is in range,
  otherwise \<open>undefined\<close>, which \<open>ToInt32\<close> turns into 0.
\<close>

definition elem :: "byte list \<Rightarrow> nat \<Rightarrow> js_number" where
  "elem data i = (if i < length data then uint (data ! i) else 0)"

text \<open>
  \<open>TypedArray.prototype.slice(start, end)\<close>: negative indices count from the end, both
  indices are clamped to the array, and an empty range gives an empty array.
\<close>

definition slice_js :: "'a list \<Rightarrow> int \<Rightarrow> int \<Rightarrow> 'a list" where
  "slice_js xs start end =
     (let len = int (length xs);
          k = (if start < 0 then max (len + start) 0 else min start len);
          final = (if end < 0 then max (len + end) 0 else min end len)
      in take (nat (final - k)) (drop (nat k) xs))"

text \<open>\<open>String.prototype.substr(start, length)\<close> for a start index inside the string.\<close>

definition substr :: "string \<Rightarrow> nat \<Rightarrow> nat \<Rightarrow> string" where
  "substr s start len = take len (drop start s)"

datatype js_error = RangeError

text \<open>
  \<open>TypedArray.prototype.set(source, offset)\<close>: copies \<open>source\<close> into the target at
  \<open>offset\<close>, and throws a \<open>RangeError\<close> when it does not fit.
\<close>

definition typedArraySet :: "byte list \<Rightarrow> byte list \<Rightarrow> nat \<Rightarrow> js_error + byte list" where
  "typedArraySet target source offset =
     (if length source + offset > length target then Inl RangeError
      else Inr (take offset target @ source @ drop (offset + length source) target))"

subsection \<open>\<open>parseInt\<close>\<close>

text \<open>
  Strings are lists of 8-bit characters, read as the code units U+0000 to U+00FF. The
  white space that \<open>parseInt\<close> skips is, in that range, TAB, LF, VT, FF, CR, SPACE and
  NBSP.
\<close>

definition isStrWhiteSpaceChar :: "char \<Rightarrow> bool" where
  "isStrWhiteSpaceChar c = ((of_char c :: nat) \<in> {9, 10, 11, 12, 13, 32, 160})"

definition digitValue :: "char \<Rightarrow> nat option" where
  "digitValue c =
     (let n = (of_char c :: nat) in
      if 48 \<le> n \<and> n \<le> 57 then Some (n - 48)
      else if 97 \<le> n \<and> n \<le> 122 then Some (n - 87)
      else if 65 \<le> n \<and> n \<le> 90 then Some (n - 55)
      else None)"

definition isRadixDigit :: "nat \<Rightarrow> char \<Rightarrow> bool" where
  "isRadixDigit R c = (case digitValue c of None \<Rightarrow> False | Some d \<Rightarrow> d < R)"

definition digitsValue :: "nat \<Rightarrow> string \<Rightarrow> nat" where
  "digitsValue R Z =
     foldl (\<lambda>acc c. acc * R + (case digitValue c of Some d \<Rightarrow> d | None \<Rightarrow> 0)) 0 Z"

text \<open>
  \<open>parseInt(string, radix)\<close> after ECMA-262: skip leading white space, read a sign,
  strip a \<open>0x\<close> prefix when the radix is 16 (or 0), take the longest prefix of digits of
  the radix; \<open>NaN\<close> when that prefix is empty or the radix is not 0 or in 2..36.
\<close>

definition parseInt :: "string \<Rightarrow> js_number \<Rightarrow> js_number option" where
  "parseInt string radix =
     (let S = dropWhile isStrWhiteSpaceChar string;
          sign = (if S \<noteq> [] \<and> hd S = CHR ''-'' then - 1 else 1 :: int);
          S1 = (if S \<noteq> [] \<and> (hd S = CHR ''+'' \<or> hd S = CHR ''-'') then tl S else S);
          R0 = toInt32 radix
      in if R0 \<noteq> 0 \<and> (R0 < 2 \<or> R0 > 36) then None
         else
           (let stripPrefix = (R0 = 0 \<or> R0 = 16);
                R1 = (if R0 = 0 then 10 else nat R0);
                hasPrefix = (stripPrefix \<and> (take 2 S1 = ''0x'' \<or> take 2 S1 = ''0X''));
                S2 = (if hasPrefix then drop 2 S1 else S1);
                R = (if hasPrefix then 16 else R1);
                Z = takeWhile (isRadixDigit R) S2
            in if Z = [] then None else Some (sign * int (digitsValue R Z))))"

text \<open>An element of the array given to \<open>new Uint8Array(data)\<close>: \<open>NaN\<close> is stored as 0.\<close>

definition storeUint8 :: "js_number option \<Rightarrow> byte" where
  "storeUint8 v = (case v of None \<Rightarrow> 0 | Some n \<Rightarrow> toUint8 n)"

subsection \<open>Hex string to bytes and back\<close>

function hexLoop :: "string \<Rightarrow> nat \<Rightarrow> js_number option list \<Rightarrow> js_number option list" where
  "hexLoop hex i data =
     (if i < length hex then hexLoop hex (i + 2) (data @ [parseInt (substr hex i 2) 16])
      else data)"
  by pat_completeness auto
termination
  by (relation "measure (\<lambda>(hex, i, data). length hex - i)") auto

declare hexLoop.simps [simp del]

definition hexToUint8Array :: "string \<Rightarrow> byte list" where
  "hexToUint8Array hex = map storeUint8 (hexLoop hex 0 [])"

definition hexDigit :: "nat \<Rightarrow> char" where
  "hexDigit d = (if d < 10 then char_of (48 + d) else char_of (87 + d))"

text \<open>\<open>byte.toString(16).padStart(2, '0')\<close>, which is also Swift's \<open>%02x\<close>.\<close>

definition byteToHex :: "byte \<Rightarrow> string" where
  "byteToHex b = [hexDigit (unat b div 16), hexDigit (unat b mod 16)]"

definition uint8ArrayToHex :: "byte list \<Rightarrow> string" where
  "uint8ArrayToHex data = concat (map byteToHex data)"

definition validateHexString :: "string \<Rightarrow> bool" where
  "validateHexString hex = (list_all (isRadixDigit 16) hex \<and> length hex mod 2 = 0)"

subsection \<open>Integer codecs, little endian\<close>

definition uint8ArrayToUint16LE :: "byte list \<Rightarrow> js_number" where
  "uint8ArrayToUint16LE data = js_or (js_shl (elem data 1) 8) (elem data 0)"

definition uint16LEToUint8Array :: "js_number \<Rightarrow> byte list" where
  "uint16LEToUint8Array v = [toUint8 (js_and v 0xff), toUint8 (js_and (js_sar v 8) 0xff)]"

definition uint8ArrayToUint32LE :: "byte list \<Rightarrow> js_number" where
  "uint8ArrayToUint32LE data =
     js_or (js_or (js_or (js_shl (elem data 3) 24) (js_shl (elem data 2) 16))
                  (js_shl (elem data 1) 8))
           (elem data 0)"

definition uint32LEToUint8Array :: "js_number \<Rightarrow> byte list" where
  "uint32LEToUint8Array v =
     [toUint8 (js_and v 0xff), toUint8 (js_and (js_sar v 8) 0xff),
      toUint8 (js_and (js_sar v 16) 0xff), toUint8 (js_and (js_sar v 24) 0xff)]"

definition uint8ArrayToInt16LE :: "byte list \<Rightarrow> js_number" where
  "uint8ArrayToInt16LE data =
     (let uint = uint8ArrayToUint16LE data in if uint > 0x7fff then uint - 0x10000 else uint)"

definition int16LEToUint8Array :: "js_number \<Rightarrow> byte list" where
  "int16LEToUint8Array v = uint16LEToUint8Array (js_and v 0xffff)"

definition uint8ArrayToInt32LE :: "byte list \<Rightarrow> js_number" where
  "uint8ArrayToInt32LE data =
     (let uint = uint8ArrayToUint32LE data
      in if uint > 0x7fffffff then uint - 0x100000000 else uint)"

definition int32LEToUint8Array :: "js_number \<Rightarrow> byte list" where
  "int32LEToUint8Array v = uint32LEToUint8Array (js_and v 0xffffffff)"

subsection \<open>Integer codecs, big endian\<close>

definition uint8ArrayToUint16BE :: "byte list \<Rightarrow> js_number" where
  "uint8ArrayToUint16BE data = js_or (js_shl (elem data 0) 8) (elem data 1)"

definition uint16BEToUint8Array :: "js_number \<Rightarrow> byte list" where
  "uint16BEToUint8Array v = [toUint8 (js_and (js_sar v 8) 0xff), toUint8 (js_and v 0xff)]"

definition uint8ArrayToUint32BE :: "byte list \<Rightarrow> js_number" where
  "uint8ArrayToUint32BE data =
     js_or (js_or (js_or (js_shl (elem data 0) 24) (js_shl (elem data 1) 16))
                  (js_shl (elem data 2) 8))
           (elem data 3)"

definition uint32BEToUint8Array :: "js_number \<Rightarrow> byte list" where
  "uint32BEToUint8Array v =
     [toUint8 (js_and (js_sar v 24) 0xff), toUint8 (js_and (js_sar v 16) 0xff),
      toUint8 (js_and (js_sar v 8) 0xff), toUint8 (js_and v 0xff)]"

definition uint8ArrayToInt16BE :: "byte list \<Rightarrow> js_number" where
  "uint8ArrayToInt16BE data =
     (let uint = uint8ArrayToUint16BE data in if uint > 0x7fff then uint - 0x10000 else uint)"

definition int16BEToUint8Array :: "js_number \<Rightarrow> byte list" where
  "int16BEToUint8Array v = uint16BEToUint8Array (js_and v 0xffff)"

definition uint8ArrayToInt32BE :: "byte list \<Rightarrow> js_number" where
  "uint8ArrayToInt32BE data =
     (let uint = uint8ArrayToUint32BE data
      in if uint > 0x7fffffff then uint - 0x100000000 else uint)"

definition int32BEToUint8Array :: "js_number \<Rightarrow> byte list" where
  "int32BEToUint8Array v = uint32BEToUint8Array (js_and v 0xffffffff)"

subsection \<open>MTU based packetization\<close>

text \<open>
  The \<open>for\<close> loop of \<open>splitIntoPackets\<close>, with the loop variable \<open>i\<close> and the array
  \<open>packets\<close> as arguments. Nothing in the source bounds the number of iterations, so the
  loop is a partial function: \<open>None\<close> is a call that never returns.
\<close>

partial_function (option) splitLoop ::
  "byte list \<Rightarrow> js_number \<Rightarrow> js_number \<Rightarrow> byte list list \<Rightarrow> byte list list option" where
  "splitLoop data maxPayloadSize i packets =
     (if i < int (length data) then
        (let end = min (i + maxPayloadSize) (int (length data));
             packet = slice_js data i end
         in splitLoop data maxPayloadSize (i + maxPayloadSize) (packets @ [packet]))
      else Some packets)"

declare splitLoop.simps [code]

definition splitIntoPackets :: "byte list \<Rightarrow> js_number \<Rightarrow> js_number \<Rightarrow> byte list list option" where
  "splitIntoPackets data mtu headerSize =
     (let maxPayloadSize = mtu - headerSize in splitLoop data maxPayloadSize 0 [])"

fun reassembleLoop :: "byte list list \<Rightarrow> byte list \<Rightarrow> nat \<Rightarrow> js_error + byte list" where
  "reassembleLoop [] result offset = Inr result"
| "reassembleLoop (packet # rest) result offset =
     (case typedArraySet result packet offset of
        Inl e \<Rightarrow> Inl e
      | Inr result' \<Rightarrow> reassembleLoop rest result' (offset + length packet))"

definition reassemblePackets :: "byte list list \<Rightarrow> js_error + byte list" where
  "reassemblePackets packets =
     (let totalLength = foldl (\<lambda>sum packet. sum + length packet) 0 packets;
          result = replicate totalLength 0
      in reassembleLoop packets result 0)"

section \<open>The native manager: \<open>BleManager\<close> and \<open>RNBleManager\<close> of \<open>src/ios\<close>\<close>

subsection \<open>Swift's \<open>Data\<close> extensions\<close>

text \<open>
  Swift's \<open>UInt8(text, radix:)\<close>: an optional sign, then at least one digit of the radix;
  \<open>nil\<close> on any other character and when the value does not fit the type (so a minus
  sign is accepted only in front of zeros).
\<close>

fun uint8Digits :: "nat \<Rightarrow> bool \<Rightarrow> string \<Rightarrow> int \<Rightarrow> int option" where
  "uint8Digits radix isNegative [] result = Some result"
| "uint8Digits radix isNegative (c # cs) result =
     (case digitValue c of
        None \<Rightarrow> None
      | Some d \<Rightarrow>
          if \<not> d < radix then None
          else
            (let result' = (if isNegative then result * int radix - int d
                            else result * int radix + int d)
             in if result' < 0 \<or> result' > 255 then None
                else uint8Digits radix isNegative cs result'))"

definition UInt8_radix :: "string \<Rightarrow> nat \<Rightarrow> byte option" where
  "UInt8_radix text radix =
     (case text of
        [] \<Rightarrow> None
      | c # rest \<Rightarrow>
          (let (isNegative, digits) =
                 (if c = CHR ''-'' then (True, rest)
                  else if c = CHR ''+'' then (False, rest)
                  else (False, text))
           in if digits = [] then None
              else map_option word_of_int (uint8Digits radix isNegative digits 0)))"

function dataLoop :: "string \<Rightarrow> nat \<Rightarrow> byte list \<Rightarrow> byte list option" where
  "dataLoop hexString index data =
     (if index < length hexString then
        (let endIndex = index + 2 in
         case UInt8_radix (take (endIndex - index) (drop index hexString)) 16 of
           None \<Rightarrow> None
         | Some byte \<Rightarrow> dataLoop hexString endIndex (data @ [byte]))
      else Some data)"
  by pat_completeness auto
termination
  by (relation "measure (\<lambda>(hexString, index, data). length hexString - index)") auto

declare dataLoop.simps [simp del]

text \<open>\<open>Data(hexString:)\<close>, the failable initializer.\<close>

definition Data_hexString :: "string \<Rightarrow> byte list option" where
  "Data_hexString hexString =
     (if length hexString mod 2 \<noteq> 0 then None else dataLoop hexString 0 [])"

text \<open>\<open>data.hexString\<close>.\<close>

definition hexString :: "byte list \<Rightarrow> string" where
  "hexString data = concat (map byteToHex data)"

subsection \<open>Data model\<close>

type_synonym uuid = nat
type_synonym cbuuid = nat
type_synonym peripheral_ref = nat
type_synonym time_interval = rat

datatype BleState = unknown | resetting | unsupported | unauthorized | poweredOff | poweredOn

datatype BleConnectionState = st_disconnected | st_connecting | st_connected | st_disconnecting

datatype BleScanMode = lowPower | balanced | lowLatency | opportunistic

datatype CBManagerState =
  cb_unknown | cb_resetting | cb_unsupported | cb_unauthorized | cb_poweredOff | cb_poweredOn

datatype CBPeripheralState = cb_disconnected | cb_connecting | cb_connected | cb_disconnecting

datatype CBCharacteristicProperty =
  prop_broadcast | prop_read | prop_writeWithoutResponse | prop_write | prop_notify
  | prop_indicate | prop_authenticatedSignedWrites | prop_extendedProperties

datatype CBCharacteristicWriteType = withResponse | withoutResponse

fun BleState_rawValue :: "BleState \<Rightarrow> int" where
  "BleState_rawValue unknown = 0"
| "BleState_rawValue resetting = 1"
| "BleState_rawValue unsupported = 2"
| "BleState_rawValue unauthorized = 3"
| "BleState_rawValue poweredOff = 4"
| "BleState_rawValue poweredOn = 5"

fun BleConnectionState_rawValue :: "BleConnectionState \<Rightarrow> int" where
  "BleConnectionState_rawValue st_disconnected = 0"
| "BleConnectionState_rawValue st_connecting = 1"
| "BleConnectionState_rawValue st_connected = 2"
| "BleConnectionState_rawValue st_disconnecting = 3"

definition BleScanMode_of_rawValue :: "int \<Rightarrow> BleScanMode option" where
  "BleScanMode_of_rawValue n =
     (if n = 0 then Some lowPower else if n = 1 then Some balanced
      else if n = 2 then Some lowLatency else if n = 3 then Some opportunistic else None)"

datatype nserror = NSError (domain: string) (code: int) (localizedDescription: string)

definition bleError :: "int \<Rightarrow> string \<Rightarrow> nserror" where
  "bleError c msg = NSError ''BleError'' c msg"

text \<open>The CoreBluetooth objects, as the fields the source reads.\<close>

record cbcharacteristic =
  c_uuid :: cbuuid
  c_properties :: "CBCharacteristicProperty set"
  c_value :: "byte list option"
  c_isNotifying :: bool

record cbservice =
  s_uuid :: cbuuid
  s_characteristics :: "cbcharacteristic list option"

record cbperipheral =
  p_identifier :: uuid
  p_name :: "string option"
  p_state :: CBPeripheralState
  p_services :: "cbservice list option"
  p_maximumWriteValueLength :: int

text \<open>
  The platform, the external collaborator: Foundation's and CoreBluetooth's parsers and
  printers of identifiers, the peripherals the system can retrieve, the state of the
  central and the current fields of every peripheral object. A \<open>CBPeripheral\<close> is a
  shared object that the framework mutates; the manager holds references to it
  (\<open>peripheral_ref\<close>) and reads its fields through \<open>peripheralObject\<close> at the time of use.
\<close>

record platform =
  UUID_uuidString :: "string \<Rightarrow> uuid option"
  uuidString :: "uuid \<Rightarrow> string"
  CBUUID_string :: "string \<Rightarrow> cbuuid"
  cbuuidString :: "cbuuid \<Rightarrow> string"
  retrievePeripherals :: "uuid list \<Rightarrow> peripheral_ref list"
  peripheralObject :: "peripheral_ref \<Rightarrow> cbperipheral"
  centralState :: CBManagerState

record BleDevice =
  d_id :: string
  d_name :: "string option"
  d_rssi :: int
  d_manufacturerData :: "string option"
  d_serviceUUIDs :: "string list"
  d_txPowerLevel :: "int option"
  d_isConnectable :: bool

record BleScanFilter =
  f_serviceUUIDs :: "string list option"
  f_name :: "string option"
  f_namePrefix :: "string option"
  f_manufacturerData :: "byte list option"
  f_minRssi :: "int option"

record BleScanOptions =
  o_scanMode :: BleScanMode
  o_timeout :: time_interval
  o_continuous :: bool
  o_allowDuplicates :: bool

record ConnectionParameters =
  minInterval :: time_interval
  maxInterval :: time_interval
  latency :: int
  supervisionTimeout :: time_interval

text \<open>
  The closures handed to the manager as completion handlers are the bridge's:
  \<open>PromiseCompletion k\<close> rejects promise \<open>k\<close> when given an error and resolves it
  otherwise; \<open>EmptyCompletion\<close> is the \<open>{ _ in }\<close> of the automatic reconnect.
\<close>

datatype completion = PromiseCompletion nat | EmptyCompletion

record ConnectionParams =
  cp_timeout :: time_interval
  cp_completion :: completion
  cp_params :: "ConnectionParameters option"

text \<open>The advertisement dictionary, as the keys \<open>createBleDevice\<close> reads.\<close>

record advertisement =
  adv_localName :: "string option"
  adv_manufacturerData :: "byte list option"
  adv_serviceUUIDs :: "cbuuid list option"
  adv_txPowerLevel :: "int option"
  adv_isConnectable :: "bool option"

text \<open>The dictionaries that cross the bridge, as the keys the bridge reads.\<close>

record filter_dict =
  fd_serviceUUIDs :: "string list option"
  fd_name :: "string option"
  fd_namePrefix :: "string option"
  fd_manufacturerData :: "string option"
  fd_minRssi :: "int option"

record options_dict =
  od_scanMode :: "int option"
  od_timeout :: "time_interval option"
  od_continuous :: "bool option"
  od_allowDuplicates :: "bool option"

record params_dict =
  pd_minInterval :: "time_interval option"
  pd_maxInterval :: "time_interval option"
  pd_latency :: "int option"
  pd_supervisionTimeout :: "time_interval option"

text \<open>Log messages: one constructor for each format string of the source.\<close>

datatype log_message =
    LogBluetoothStateChanged int
  | LogPeripheralConnected string
  | LogPeripheralDisconnected string string
  | LogAutoReconnecting string
  | LogFailedToConnect string string
  | LogFailedToDiscoverServices string
  | LogFailedToDiscoverCharacteristics string
  | LogDiscoveredCharacteristics nat string
  | LogNoDataReceived string
  | LogDataReceived string
  | LogNotificationStateChanged string bool string
  | LogWriteCompleted string string
  | LogRssiRead int string
  | LogRssiReadError string

datatype js_value =
    JSNull | JSBool bool | JSNumber int | JSString string | JSList "js_value list"

text \<open>The events the bridge sends to JavaScript.\<close>

datatype bridge_event =
    onDeviceDiscovered BleDevice
  | onBluetoothStateChanged int
  | onConnectionStateChanged string int
  | onNotificationReceived string string string
  | onLog log_message
  | onMtuUpdated string int
  | onRssiUpdated string int

text \<open>
  Everything an operation does to the outside, in the order in which it does it:
  requests to the Adapter (CoreBluetooth), timers and delayed blocks it schedules,
  promises it settles and events it sends.
\<close>

datatype effect =
    ScanForPeripherals "cbuuid list option" bool
  | StopScan
  | ConnectPeripheral peripheral_ref
  | CancelPeripheralConnection peripheral_ref
  | ReadValue peripheral_ref cbcharacteristic
  | WriteValue peripheral_ref "byte list" cbcharacteristic CBCharacteristicWriteType
  | SetNotifyValue peripheral_ref bool cbcharacteristic
  | DiscoverServices peripheral_ref "cbuuid list option"
  | DiscoverCharacteristics peripheral_ref cbservice
  | ReadRSSI peripheral_ref
  | SetDelegate peripheral_ref
  | InvalidateScanTimer
  | ScheduleScanTimer time_interval
  | ScheduleConnectTimeout peripheral_ref time_interval
  | ScheduleReconnect peripheral_ref time_interval
  | Resolve nat js_value
  | Reject nat string string
  | SendEvent bridge_event
  | Print log_message

text \<open>
  The manager's stored properties. A stored callback is a \<open>bool\<close>: whether a closure is
  installed; the only closures ever installed are the bridge's, which send the event of
  the same name. \<open>scanTimer\<close> is whether a timer object is held.
\<close>

record ble_manager =
  peripherals :: "uuid \<rightharpoonup> peripheral_ref"
  pendingConnections :: "uuid \<rightharpoonup> ConnectionParams"
  autoReconnectMap :: "uuid \<rightharpoonup> bool"
  connectionParameters :: "uuid \<rightharpoonup> ConnectionParameters"
  scanTimer :: bool
  discoveredDevices :: "uuid \<rightharpoonup> BleDevice"
  scanCallback :: bool
  scanFilter :: "BleScanFilter option"
  scanOptions :: "BleScanOptions option"
  stateCallback :: bool
  connectionStateCallback :: bool
  notificationCallback :: bool
  logCallback :: bool
  mtuCallback :: bool
  rssiCallback :: bool

definition initialManager :: ble_manager where
  "initialManager =
     \<lparr>peripherals = Map.empty, pendingConnections = Map.empty, autoReconnectMap = Map.empty,
      connectionParameters = Map.empty, scanTimer = False, discoveredDevices = Map.empty,
      scanCallback = False, scanFilter = None, scanOptions = None, stateCallback = False,
      connectionStateCallback = False, notificationCallback = False, logCallback = False,
      mtuCallback = False, rssiCallback = False\<rparr>"

subsection \<open>Completion handlers and logging\<close>

text \<open>
  Calling a completion handler with a value and an optional error. The bridge's closure
  is \<open>if let error = error { rejecter("BleError", error.localizedDescription, error) }
  else { resolver(value) }\<close>.
\<close>

fun complete :: "completion \<Rightarrow> js_value \<Rightarrow> nserror option \<Rightarrow> effect list" where
  "complete (PromiseCompletion k) v (Some error) = [Reject k ''BleError'' (localizedDescription error)]"
| "complete (PromiseCompletion k) v None = [Resolve k v]"
| "complete EmptyCompletion v error = []"

definition log_ble :: "ble_manager \<Rightarrow> log_message \<Rightarrow> effect list" where
  "log_ble s message = (if logCallback s then [SendEvent (onLog message)] else []) @ [Print message]"

definition errorDescription :: "nserror option \<Rightarrow> string \<Rightarrow> string" where
  "errorDescription error dflt = (case error of None \<Rightarrow> dflt | Some e \<Rightarrow> localizedDescription e)"

definition identifierOf :: "platform \<Rightarrow> peripheral_ref \<Rightarrow> uuid" where
  "identifierOf w peripheral = p_identifier (peripheralObject w peripheral)"

definition identifierString :: "platform \<Rightarrow> peripheral_ref \<Rightarrow> string" where
  "identifierString w peripheral = uuidString w (identifierOf w peripheral)"

subsection \<open>\<open>BleManager\<close>: public API\<close>

text \<open>
  \<open>startScan\<close>. The timer condition \<open>!options?.continuous ?? false\<close> is read as
  written, the negation inside the optional chain: without options no timer is armed. The
  bridge always passes options.
\<close>

definition startScan ::
  "platform \<Rightarrow> BleScanFilter option \<Rightarrow> BleScanOptions option \<Rightarrow> ble_manager
     \<Rightarrow> ble_manager \<times> effect list" where
  "startScan w flt options s =
     (let s1 = s\<lparr>scanCallback := True, scanFilter := flt, scanOptions := options,
                 discoveredDevices := Map.empty\<rparr>;
          allowDuplicates = (case options of None \<Rightarrow> False | Some opts \<Rightarrow> o_allowDuplicates opts);
          scan = (case (case flt of None \<Rightarrow> None | Some f \<Rightarrow> f_serviceUUIDs f) of
                    Some serviceUUIDs \<Rightarrow>
                      [ScanForPeripherals (Some (map (CBUUID_string w) serviceUUIDs)) allowDuplicates]
                  | None \<Rightarrow> [ScanForPeripherals None allowDuplicates])
      in if (case options of None \<Rightarrow> False | Some opts \<Rightarrow> \<not> o_continuous opts) then
           (s1\<lparr>scanTimer := True\<rparr>,
            scan @ (if scanTimer s then [InvalidateScanTimer] else [])
                 @ [ScheduleScanTimer (case options of None \<Rightarrow> 10 | Some opts \<Rightarrow> o_timeout opts)])
         else (s1, scan))"

definition stopScan :: "ble_manager \<Rightarrow> ble_manager \<times> effect list" where
  "stopScan s =
     (s\<lparr>scanTimer := False\<rparr>, [StopScan] @ (if scanTimer s then [InvalidateScanTimer] else []))"

definition connectToPeripheral ::
  "platform \<Rightarrow> peripheral_ref \<Rightarrow> time_interval \<Rightarrow> ConnectionParameters option \<Rightarrow> completion
     \<Rightarrow> ble_manager \<Rightarrow> ble_manager \<times> effect list" where
  "connectToPeripheral w peripheral timeout params completion s =
     (let connectionParams = \<lparr>cp_timeout = timeout, cp_completion = completion, cp_params = params\<rparr>
      in (s\<lparr>pendingConnections := (pendingConnections s)(identifierOf w peripheral \<mapsto> connectionParams)\<rparr>,
          [ConnectPeripheral peripheral, ScheduleConnectTimeout peripheral timeout]))"

text \<open>The block that \<open>connectToPeripheral\<close> schedules, when it runs after the timeout.\<close>

definition connectTimeoutBlock ::
  "platform \<Rightarrow> peripheral_ref \<Rightarrow> ble_manager \<Rightarrow> ble_manager \<times> effect list" where
  "connectTimeoutBlock w peripheral s =
     (case pendingConnections s (identifierOf w peripheral) of
        Some pending \<Rightarrow>
          (s\<lparr>pendingConnections := (pendingConnections s)(identifierOf w peripheral := None)\<rparr>,
           [CancelPeripheralConnection peripheral]
             @ complete (cp_completion pending) JSNull (Some (bleError (- 3) ''Connection timeout'')))
      | None \<Rightarrow> (s, []))"

definition connect ::
  "platform \<Rightarrow> string \<Rightarrow> time_interval \<Rightarrow> bool \<Rightarrow> ConnectionParameters option \<Rightarrow> completion
     \<Rightarrow> ble_manager \<Rightarrow> ble_manager \<times> effect list" where
  "connect w ident timeout autoReconnect params completion s =
     (case UUID_uuidString w ident of
        None \<Rightarrow> (s, complete completion JSNull (Some (bleError (- 1) ''Invalid UUID'')))
      | Some uuid \<Rightarrow>
          (let s1 = s\<lparr>autoReconnectMap := (autoReconnectMap s)(uuid \<mapsto> autoReconnect)\<rparr> in
           case peripherals s1 uuid of
             Some peripheral \<Rightarrow> connectToPeripheral w peripheral timeout params completion s1
           | None \<Rightarrow>
               (case retrievePeripherals w [uuid] of
                  peripheral # _ \<Rightarrow>
                    connectToPeripheral w peripheral timeout params completion
                      (s1\<lparr>peripherals := (peripherals s1)(uuid \<mapsto> peripheral)\<rparr>)
                | [] \<Rightarrow>
                    (s1, complete completion JSNull (Some (bleError (- 2) ''Peripheral not found''))))))"

text \<open>
  A statement of a method body: what it writes and what it does to the outside. A body is
  the list of its statements in the order of the source, run one after the other.
\<close>

type_synonym statement = "ble_manager \<Rightarrow> ble_manager \<times> effect list"

fun runStatements :: "statement list \<Rightarrow> ble_manager \<Rightarrow> ble_manager \<times> effect list" where
  "runStatements [] s = (s, [])"
| "runStatements (st # rest) s =
     (let (s1, effs) = st s; (s2, effs') = runStatements rest s1 in (s2, effs @ effs'))"

text \<open>
  The three statements of \<open>disconnect\<close> after its guard, in the order of the source:
  \<open>autoReconnectMap[uuid] = false\<close>, then
  \<open>centralManager.cancelPeripheralConnection(peripheral)\<close>, then \<open>completion(nil)\<close>.
\<close>

definition disconnectStatements :: "uuid \<Rightarrow> peripheral_ref \<Rightarrow> completion \<Rightarrow> statement list" where
  "disconnectStatements uuid peripheral completion =
     [\<lambda>s. (s\<lparr>autoReconnectMap := (autoReconnectMap s)(uuid \<mapsto> False)\<rparr>, []),
      \<lambda>s. (s, [CancelPeripheralConnection peripheral]),
      \<lambda>s. (s, complete completion JSNull None)]"

definition disconnect ::
  "platform \<Rightarrow> string \<Rightarrow> completion \<Rightarrow> ble_manager \<Rightarrow> ble_manager \<times> effect list" where
  "disconnect w ident completion s =
     (case (case UUID_uuidString w ident of
              None \<Rightarrow> None
            | Some uuid \<Rightarrow> (case peripherals s uuid of
                              None \<Rightarrow> None
                            | Some peripheral \<Rightarrow> Some (uuid, peripheral))) of
        None \<Rightarrow> (s, complete completion JSNull (Some (bleError (- 1) ''Peripheral not found'')))
      | Some (uuid, peripheral) \<Rightarrow>
          runStatements (disconnectStatements uuid peripheral completion) s)"

definition getPeripheral :: "platform \<Rightarrow> ble_manager \<Rightarrow> string \<Rightarrow> peripheral_ref option" where
  "getPeripheral w s ident =
     (case UUID_uuidString w ident of None \<Rightarrow> None | Some uuid \<Rightarrow> peripherals s uuid)"

text \<open>
  \<open>findCharacteristic\<close> either calls its completion with the cached characteristic or
  asks the peripheral to discover the service, and then never calls it.
\<close>

datatype find_result = Completion "cbcharacteristic option" | Discover cbuuid

definition findCharacteristic ::
  "platform \<Rightarrow> peripheral_ref \<Rightarrow> cbuuid \<Rightarrow> cbuuid \<Rightarrow> find_result" where
  "findCharacteristic w peripheral serviceCBUUID charCBUUID =
     (case (case p_services (peripheralObject w peripheral) of
              None \<Rightarrow> None
            | Some svcs \<Rightarrow> find (\<lambda>sv. s_uuid sv = serviceCBUUID) svcs) of
        None \<Rightarrow> Discover serviceCBUUID
      | Some service \<Rightarrow>
          (case (case s_characteristics service of
                   None \<Rightarrow> None
                 | Some chars \<Rightarrow> find (\<lambda>ch. c_uuid ch = charCBUUID) chars) of
             None \<Rightarrow> Discover serviceCBUUID
           | Some characteristic \<Rightarrow> Completion (Some characteristic)))"

definition readCharacteristic ::
  "platform \<Rightarrow> string \<Rightarrow> string \<Rightarrow> string \<Rightarrow> completion \<Rightarrow> ble_manager
     \<Rightarrow> ble_manager \<times> effect list" where
  "readCharacteristic w peripheralId serviceUuid characteristicUuid completion s =
     (case getPeripheral w s peripheralId of
        None \<Rightarrow> (s, complete completion JSNull (Some (bleError (- 1) ''Peripheral not found'')))
      | Some peripheral \<Rightarrow>
          (let serviceCBUUID = CBUUID_string w serviceUuid;
               charCBUUID = CBUUID_string w characteristicUuid
           in case findCharacteristic w peripheral serviceCBUUID charCBUUID of
                Discover u \<Rightarrow> (s, [DiscoverServices peripheral (Some [u])])
              | Completion None \<Rightarrow>
                  (s, complete completion JSNull (Some (bleError (- 2) ''Characteristic not found'')))
              | Completion (Some characteristic) \<Rightarrow> (s, [ReadValue peripheral characteristic])))"

definition writeCharacteristic ::
  "platform \<Rightarrow> string \<Rightarrow> string \<Rightarrow> string \<Rightarrow> string \<Rightarrow> completion \<Rightarrow> ble_manager
     \<Rightarrow> ble_manager \<times> effect list" where
  "writeCharacteristic w peripheralId serviceUuid characteristicUuid val completion s =
     (case getPeripheral w s peripheralId of
        None \<Rightarrow> (s, complete completion JSNull (Some (bleError (- 1) ''Peripheral not found'')))
      | Some peripheral \<Rightarrow>
          (case Data_hexString val of
             None \<Rightarrow> (s, complete completion JSNull (Some (bleError (- 3) ''Invalid hex string'')))
           | Some data \<Rightarrow>
               (let serviceCBUUID = CBUUID_string w serviceUuid;
                    charCBUUID = CBUUID_string w characteristicUuid
                in case findCharacteristic w peripheral serviceCBUUID charCBUUID of
                     Discover u \<Rightarrow> (s, [DiscoverServices peripheral (Some [u])])
                   | Completion None \<Rightarrow>
                       (s, complete completion JSNull
                             (Some (bleError (- 2) ''Characteristic not found'')))
                   | Completion (Some characteristic) \<Rightarrow>
                       if prop_writeWithoutResponse \<in> c_properties characteristic then
                         (s, [WriteValue peripheral data characteristic withoutResponse])
                       else if prop_write \<in> c_properties characteristic then
                         (s, [WriteValue peripheral data characteristic withResponse])
                       else
                         (s, complete completion JSNull
                               (Some (bleError (- 4) ''Characteristic not writable''))))))"

definition enableNotifications ::
  "platform \<Rightarrow> string \<Rightarrow> string \<Rightarrow> string \<Rightarrow> bool \<Rightarrow> completion \<Rightarrow> ble_manager
     \<Rightarrow> ble_manager \<times> effect list" where
  "enableNotifications w peripheralId serviceUuid characteristicUuid enabled completion s =
     (case getPeripheral w s peripheralId of
        None \<Rightarrow> (s, complete completion JSNull (Some (bleError (- 1) ''Peripheral not found'')))
      | Some peripheral \<Rightarrow>
          (let serviceCBUUID = CBUUID_string w serviceUuid;
               charCBUUID = CBUUID_string w characteristicUuid
           in case findCharacteristic w peripheral serviceCBUUID charCBUUID of
                Discover u \<Rightarrow> (s, [DiscoverServices peripheral (Some [u])])
              | Completion None \<Rightarrow>
                  (s, complete completion JSNull (Some (bleError (- 2) ''Characteristic not found'')))
              | Completion (Some characteristic) \<Rightarrow>
                  (s, [SetNotifyValue peripheral enabled characteristic]
                        @ complete completion JSNull None)))"

definition discoverServices ::
  "platform \<Rightarrow> string \<Rightarrow> completion \<Rightarrow> ble_manager \<Rightarrow> ble_manager \<times> effect list" where
  "discoverServices w peripheralId completion s =
     (case getPeripheral w s peripheralId of
        None \<Rightarrow> (s, complete completion (JSList []) (Some (bleError (- 1) ''Peripheral not found'')))
      | Some peripheral \<Rightarrow> (s, [DiscoverServices peripheral None]))"

definition requestMTU ::
  "platform \<Rightarrow> string \<Rightarrow> int \<Rightarrow> completion \<Rightarrow> ble_manager \<Rightarrow> ble_manager \<times> effect list" where
  "requestMTU w peripheralId mtu completion s =
     (case getPeripheral w s peripheralId of
        None \<Rightarrow> (s, complete completion JSNull (Some (bleError (- 1) ''Peripheral not found'')))
      | Some peripheral \<Rightarrow>
          (s, complete completion
                (JSNumber (p_maximumWriteValueLength (peripheralObject w peripheral) + 3)) None))"

definition updateConnectionParameters ::
  "platform \<Rightarrow> string \<Rightarrow> ConnectionParameters \<Rightarrow> completion \<Rightarrow> ble_manager
     \<Rightarrow> ble_manager \<times> effect list" where
  "updateConnectionParameters w peripheralId params completion s =
     (case getPeripheral w s peripheralId of
        None \<Rightarrow> (s, complete completion JSNull (Some (bleError (- 1) ''Peripheral not found'')))
      | Some peripheral \<Rightarrow>
          (s\<lparr>connectionParameters := (connectionParameters s)(identifierOf w peripheral \<mapsto> params)\<rparr>,
           complete completion JSNull None))"

definition readRSSI ::
  "platform \<Rightarrow> string \<Rightarrow> completion \<Rightarrow> ble_manager \<Rightarrow> ble_manager \<times> effect list" where
  "readRSSI w peripheralId completion s =
     (case getPeripheral w s peripheralId of
        None \<Rightarrow> (s, complete completion JSNull (Some (bleError (- 1) ''Peripheral not found'')))
      | Some peripheral \<Rightarrow> (s, [ReadRSSI peripheral]))"

subsection \<open>\<open>BleManager\<close>: the central manager's delegate\<close>

definition bleStateOf :: "CBManagerState \<Rightarrow> BleState" where
  "bleStateOf st =
     (case st of cb_unknown \<Rightarrow> unknown | cb_resetting \<Rightarrow> resetting
      | cb_unsupported \<Rightarrow> unsupported | cb_unauthorized \<Rightarrow> unauthorized
      | cb_poweredOff \<Rightarrow> poweredOff | cb_poweredOn \<Rightarrow> poweredOn)"

definition centralManagerDidUpdateState ::
  "platform \<Rightarrow> ble_manager \<Rightarrow> ble_manager \<times> effect list" where
  "centralManagerDidUpdateState w s =
     (let st = bleStateOf (centralState w)
      in (s, (if stateCallback s then [SendEvent (onBluetoothStateChanged (BleState_rawValue st))]
              else [])
             @ log_ble s (LogBluetoothStateChanged (BleState_rawValue st))))"

definition createBleDevice :: "platform \<Rightarrow> peripheral_ref \<Rightarrow> advertisement \<Rightarrow> int \<Rightarrow> BleDevice" where
  "createBleDevice w peripheral advertisementData rssi =
     \<lparr>d_id = identifierString w peripheral,
      d_name = (case adv_localName advertisementData of
                  Some n \<Rightarrow> Some n
                | None \<Rightarrow> p_name (peripheralObject w peripheral)),
      d_rssi = rssi,
      d_manufacturerData = map_option hexString (adv_manufacturerData advertisementData),
      d_serviceUUIDs = (case adv_serviceUUIDs advertisementData of
                          Some us \<Rightarrow> map (cbuuidString w) us
                        | None \<Rightarrow> []),
      d_txPowerLevel = adv_txPowerLevel advertisementData,
      d_isConnectable = (case adv_isConnectable advertisementData of Some b \<Rightarrow> b | None \<Rightarrow> True)\<rparr>"

text \<open>Swift's \<open>starts(with:)\<close>.\<close>

definition starts_with :: "string \<Rightarrow> string \<Rightarrow> bool" where
  "starts_with str possiblePrefix = (take (length possiblePrefix) str = possiblePrefix)"

definition shouldFilterDevice :: "ble_manager \<Rightarrow> BleDevice \<Rightarrow> bool" where
  "shouldFilterDevice s device =
     (case scanFilter s of
        None \<Rightarrow> False
      | Some flt \<Rightarrow>
          if (case f_minRssi flt of Some minRssi \<Rightarrow> d_rssi device < minRssi | None \<Rightarrow> False)
          then True
          else if (case f_name flt of Some n \<Rightarrow> d_name device \<noteq> Some n | None \<Rightarrow> False)
          then True
          else if (case f_namePrefix flt of
                     Some namePrefix \<Rightarrow>
                       \<not> (case d_name device of
                            Some n \<Rightarrow> starts_with n namePrefix
                          | None \<Rightarrow> False)
                   | None \<Rightarrow> False)
          then True
          else False)"

definition didDiscover ::
  "platform \<Rightarrow> peripheral_ref \<Rightarrow> advertisement \<Rightarrow> int \<Rightarrow> ble_manager
     \<Rightarrow> ble_manager \<times> effect list" where
  "didDiscover w peripheral advertisementData rssi s =
     (let device = createBleDevice w peripheral advertisementData rssi
      in if shouldFilterDevice s device then (s, [])
         else
           (s\<lparr>discoveredDevices := (discoveredDevices s)(identifierOf w peripheral \<mapsto> device),
              peripherals := (peripherals s)(identifierOf w peripheral \<mapsto> peripheral)\<rparr>,
            if scanCallback s then [SendEvent (onDeviceDiscovered device)] else []))"

definition connectionStateChanged :: "ble_manager \<Rightarrow> string \<Rightarrow> BleConnectionState \<Rightarrow> effect list" where
  "connectionStateChanged s ident st =
     (if connectionStateCallback s
      then [SendEvent (onConnectionStateChanged ident (BleConnectionState_rawValue st))]
      else [])"

definition didConnect :: "platform \<Rightarrow> peripheral_ref \<Rightarrow> ble_manager \<Rightarrow> ble_manager \<times> effect list" where
  "didConnect w peripheral s =
     (let uuid = identifierOf w peripheral;
          logged = log_ble s (LogPeripheralConnected (identifierString w peripheral));
          after = [SetDelegate peripheral, DiscoverServices peripheral None]
                    @ connectionStateChanged s (identifierString w peripheral) st_connected
      in case pendingConnections s uuid of
           Some pending \<Rightarrow>
             ((s\<lparr>pendingConnections := (pendingConnections s)(uuid := None)\<rparr>)
                \<lparr>connectionParameters :=
                   (case cp_params pending of
                      Some params \<Rightarrow> (connectionParameters s)(uuid \<mapsto> params)
                    | None \<Rightarrow> connectionParameters s)\<rparr>,
              logged @ complete (cp_completion pending) JSNull None @ after)
         | None \<Rightarrow> (s, logged @ after))"

definition didDisconnectPeripheral ::
  "platform \<Rightarrow> peripheral_ref \<Rightarrow> nserror option \<Rightarrow> ble_manager \<Rightarrow> ble_manager \<times> effect list" where
  "didDisconnectPeripheral w peripheral error s =
     (s, log_ble s (LogPeripheralDisconnected (identifierString w peripheral)
                      (errorDescription error ''none''))
         @ (if autoReconnectMap s (identifierOf w peripheral) = Some True
            then log_ble s (LogAutoReconnecting (identifierString w peripheral))
                   @ [ScheduleReconnect peripheral 3]
            else [])
         @ connectionStateChanged s (identifierString w peripheral) st_disconnected)"

text \<open>The block that \<open>didDisconnectPeripheral\<close> schedules, when it runs three seconds later.\<close>

definition reconnectBlock ::
  "platform \<Rightarrow> peripheral_ref \<Rightarrow> ble_manager \<Rightarrow> ble_manager \<times> effect list" where
  "reconnectBlock w peripheral s =
     (case connectionParameters s (identifierOf w peripheral) of
        Some connectionParams \<Rightarrow>
          connectToPeripheral w peripheral 30 (Some connectionParams) EmptyCompletion s
      | None \<Rightarrow> connectToPeripheral w peripheral 30 None EmptyCompletion s)"

definition didFailToConnect ::
  "platform \<Rightarrow> peripheral_ref \<Rightarrow> nserror option \<Rightarrow> ble_manager \<Rightarrow> ble_manager \<times> effect list" where
  "didFailToConnect w peripheral error s =
     (let uuid = identifierOf w peripheral;
          logged = log_ble s (LogFailedToConnect (identifierString w peripheral)
                                (errorDescription error ''none''));
          after = connectionStateChanged s (identifierString w peripheral) st_disconnected
      in case pendingConnections s uuid of
           Some pending \<Rightarrow>
             (s\<lparr>pendingConnections := (pendingConnections s)(uuid := None)\<rparr>,
              logged @ complete (cp_completion pending) JSNull error @ after)
         | None \<Rightarrow> (s, logged @ after))"

subsection \<open>\<open>BleManager\<close>: the peripheral's delegate\<close>

definition didDiscoverServices ::
  "platform \<Rightarrow> peripheral_ref \<Rightarrow> nserror option \<Rightarrow> ble_manager \<Rightarrow> ble_manager \<times> effect list" where
  "didDiscoverServices w peripheral error s =
     (case p_services (peripheralObject w peripheral) of
        None \<Rightarrow> (s, log_ble s (LogFailedToDiscoverServices (errorDescription error ''unknown error'')))
      | Some svcs \<Rightarrow> (s, map (DiscoverCharacteristics peripheral) svcs))"

definition didDiscoverCharacteristicsFor ::
  "platform \<Rightarrow> peripheral_ref \<Rightarrow> cbservice \<Rightarrow> nserror option \<Rightarrow> ble_manager
     \<Rightarrow> ble_manager \<times> effect list" where
  "didDiscoverCharacteristicsFor w peripheral service error s =
     (case s_characteristics service of
        None \<Rightarrow>
          (s, log_ble s (LogFailedToDiscoverCharacteristics (errorDescription error ''unknown error'')))
      | Some chars \<Rightarrow>
          (s, log_ble s (LogDiscoveredCharacteristics (length chars) (cbuuidString w (s_uuid service)))))"

definition didUpdateValueFor ::
  "platform \<Rightarrow> peripheral_ref \<Rightarrow> cbcharacteristic \<Rightarrow> nserror option \<Rightarrow> ble_manager
     \<Rightarrow> ble_manager \<times> effect list" where
  "didUpdateValueFor w peripheral characteristic error s =
     (case c_value characteristic of
        None \<Rightarrow> (s, log_ble s (LogNoDataReceived (errorDescription error ''unknown error'')))
      | Some data \<Rightarrow>
          (let hexValue = hexString data
           in (s, log_ble s (LogDataReceived hexValue)
                  @ (if notificationCallback s
                     then [SendEvent (onNotificationReceived (identifierString w peripheral)
                                        (cbuuidString w (c_uuid characteristic)) hexValue)]
                     else []))))"

definition didUpdateNotificationStateFor ::
  "platform \<Rightarrow> peripheral_ref \<Rightarrow> cbcharacteristic \<Rightarrow> nserror option \<Rightarrow> ble_manager
     \<Rightarrow> ble_manager \<times> effect list" where
  "didUpdateNotificationStateFor w peripheral characteristic error s =
     (s, log_ble s (LogNotificationStateChanged (cbuuidString w (c_uuid characteristic))
                      (c_isNotifying characteristic) (errorDescription error ''none'')))"

definition didWriteValueFor ::
  "platform \<Rightarrow> peripheral_ref \<Rightarrow> cbcharacteristic \<Rightarrow> nserror option \<Rightarrow> ble_manager
     \<Rightarrow> ble_manager \<times> effect list" where
  "didWriteValueFor w peripheral characteristic error s =
     (s, log_ble s (LogWriteCompleted (cbuuidString w (c_uuid characteristic))
                      (errorDescription error ''none'')))"

definition didReadRSSI ::
  "platform \<Rightarrow> peripheral_ref \<Rightarrow> int \<Rightarrow> nserror option \<Rightarrow> ble_manager
     \<Rightarrow> ble_manager \<times> effect list" where
  "didReadRSSI w peripheral rssi error s =
     (s, log_ble s (LogRssiRead rssi (errorDescription error ''none''))
         @ (case error of
              Some e \<Rightarrow> log_ble s (LogRssiReadError (localizedDescription e))
            | None \<Rightarrow>
                if rssiCallback s then [SendEvent (onRssiUpdated (identifierString w peripheral) rssi)]
                else []))"

subsection \<open>\<open>RNBleManager\<close>: the bridge\<close>

text \<open>
  Every bridge method receives a resolver and a rejecter: the promise \<open>k\<close> of the call.
  The bridge runs each method as one block on the main queue; a block is one step here.
\<close>

definition bleFilterOf :: "filter_dict option \<Rightarrow> BleScanFilter option" where
  "bleFilterOf flt =
     (case flt of
        None \<Rightarrow> None
      | Some f \<Rightarrow>
          Some \<lparr>f_serviceUUIDs = (case fd_serviceUUIDs f of
                                    Some svcs \<Rightarrow> if svcs \<noteq> [] then Some svcs else None
                                  | None \<Rightarrow> None),
                f_name = fd_name f,
                f_namePrefix = fd_namePrefix f,
                f_manufacturerData = (case fd_manufacturerData f of
                                        Some hexData \<Rightarrow> Data_hexString hexData
                                      | None \<Rightarrow> None),
                f_minRssi = fd_minRssi f\<rparr>)"

definition defaultScanOptions :: BleScanOptions where
  "defaultScanOptions =
     \<lparr>o_scanMode = balanced, o_timeout = 10, o_continuous = False, o_allowDuplicates = False\<rparr>"

definition bleOptionsOf :: "options_dict option \<Rightarrow> BleScanOptions option" where
  "bleOptionsOf options =
     (case options of
        None \<Rightarrow> Some defaultScanOptions
      | Some opts \<Rightarrow>
          Some \<lparr>o_scanMode = (case BleScanMode_of_rawValue
                                      (case od_scanMode opts of Some m \<Rightarrow> m | None \<Rightarrow> 1) of
                                Some m \<Rightarrow> m
                              | None \<Rightarrow> balanced),
                o_timeout = (case od_timeout opts of Some t \<Rightarrow> t | None \<Rightarrow> 10),
                o_continuous = (case od_continuous opts of Some b \<Rightarrow> b | None \<Rightarrow> False),
                o_allowDuplicates = (case od_allowDuplicates opts of Some b \<Rightarrow> b | None \<Rightarrow> False)\<rparr>)"

definition rn_startScan ::
  "platform \<Rightarrow> nat \<Rightarrow> filter_dict option \<Rightarrow> options_dict option \<Rightarrow> ble_manager
     \<Rightarrow> ble_manager \<times> effect list" where
  "rn_startScan w k flt options s =
     (let (s1, effs) = startScan w (bleFilterOf flt) (bleOptionsOf options) s
      in (s1\<lparr>logCallback := True, stateCallback := True, connectionStateCallback := True,
             notificationCallback := True, mtuCallback := True, rssiCallback := True\<rparr>,
          effs @ [Resolve k JSNull]))"

definition rn_stopScan :: "nat \<Rightarrow> ble_manager \<Rightarrow> ble_manager \<times> effect list" where
  "rn_stopScan k s = (let (s1, effs) = stopScan s in (s1, effs @ [Resolve k JSNull]))"

definition connectionParametersOf :: "params_dict option \<Rightarrow> ConnectionParameters option" where
  "connectionParametersOf params =
     (case params of
        None \<Rightarrow> None
      | Some p \<Rightarrow>
          Some \<lparr>minInterval = (case pd_minInterval p of Some v \<Rightarrow> v | None \<Rightarrow> 0),
                maxInterval = (case pd_maxInterval p of Some v \<Rightarrow> v | None \<Rightarrow> 0),
                latency = (case pd_latency p of Some v \<Rightarrow> v | None \<Rightarrow> 0),
                supervisionTimeout = (case pd_supervisionTimeout p of Some v \<Rightarrow> v | None \<Rightarrow> 0)\<rparr>)"

definition defaultConnectionParameters :: ConnectionParameters where
  "defaultConnectionParameters =
     \<lparr>minInterval = 0, maxInterval = 0, latency = 0, supervisionTimeout = 0\<rparr>"

definition rn_connect ::
  "platform \<Rightarrow> nat \<Rightarrow> string \<Rightarrow> time_interval \<Rightarrow> bool \<Rightarrow> params_dict option \<Rightarrow> ble_manager
     \<Rightarrow> ble_manager \<times> effect list" where
  "rn_connect w k ident timeout autoReconnect params s =
     connect w ident timeout autoReconnect (connectionParametersOf params) (PromiseCompletion k) s"

definition rn_disconnect :: "platform \<Rightarrow> nat \<Rightarrow> string \<Rightarrow> ble_manager \<Rightarrow> ble_manager \<times> effect list" where
  "rn_disconnect w k ident s = disconnect w ident (PromiseCompletion k) s"

definition rn_isConnected :: "platform \<Rightarrow> nat \<Rightarrow> string \<Rightarrow> ble_manager \<Rightarrow> ble_manager \<times> effect list" where
  "rn_isConnected w k ident s =
     (case (case UUID_uuidString w ident of None \<Rightarrow> None | Some uuid \<Rightarrow> peripherals s uuid) of
        None \<Rightarrow> (s, [Resolve k (JSBool False)])
      | Some peripheral \<Rightarrow>
          (s, [Resolve k (JSBool (p_state (peripheralObject w peripheral) = cb_connected))]))"

definition rn_readCharacteristic ::
  "platform \<Rightarrow> nat \<Rightarrow> string \<Rightarrow> string \<Rightarrow> string \<Rightarrow> ble_manager \<Rightarrow> ble_manager \<times> effect list" where
  "rn_readCharacteristic w k peripheralId serviceUuid characteristicUuid s =
     readCharacteristic w peripheralId serviceUuid characteristicUuid (PromiseCompletion k) s"

definition rn_writeCharacteristic ::
  "platform \<Rightarrow> nat \<Rightarrow> string \<Rightarrow> string \<Rightarrow> string \<Rightarrow> string \<Rightarrow> ble_manager
     \<Rightarrow> ble_manager \<times> effect list" where
  "rn_writeCharacteristic w k peripheralId serviceUuid characteristicUuid val s =
     writeCharacteristic w peripheralId serviceUuid characteristicUuid val (PromiseCompletion k) s"

definition rn_enableNotifications ::
  "platform \<Rightarrow> nat \<Rightarrow> string \<Rightarrow> string \<Rightarrow> string \<Rightarrow> bool \<Rightarrow> ble_manager
     \<Rightarrow> ble_manager \<times> effect list" where
  "rn_enableNotifications w k peripheralId serviceUuid characteristicUuid enabled s =
     enableNotifications w peripheralId serviceUuid characteristicUuid enabled (PromiseCompletion k) s"

definition rn_discoverServices ::
  "platform \<Rightarrow> nat \<Rightarrow> string \<Rightarrow> ble_manager \<Rightarrow> ble_manager \<times> effect list" where
  "rn_discoverServices w k peripheralId s = discoverServices w peripheralId (PromiseCompletion k) s"

definition rn_getBluetoothState :: "platform \<Rightarrow> nat \<Rightarrow> ble_manager \<Rightarrow> ble_manager \<times> effect list" where
  "rn_getBluetoothState w k s =
     (s, [Resolve k (JSNumber (BleState_rawValue (bleStateOf (centralState w))))])"

definition connectionStateOf :: "CBPeripheralState \<Rightarrow> BleConnectionState" where
  "connectionStateOf st =
     (case st of cb_disconnected \<Rightarrow> st_disconnected | cb_connecting \<Rightarrow> st_connecting
      | cb_connected \<Rightarrow> st_connected | cb_disconnecting \<Rightarrow> st_disconnecting)"

definition rn_getConnectionState ::
  "platform \<Rightarrow> nat \<Rightarrow> string \<Rightarrow> ble_manager \<Rightarrow> ble_manager \<times> effect list" where
  "rn_getConnectionState w k ident s =
     (case (case UUID_uuidString w ident of None \<Rightarrow> None | Some uuid \<Rightarrow> peripherals s uuid) of
        None \<Rightarrow> (s, [Resolve k (JSNumber (BleConnectionState_rawValue st_disconnected))])
      | Some peripheral \<Rightarrow>
          (s, [Resolve k (JSNumber (BleConnectionState_rawValue
                                      (connectionStateOf (p_state (peripheralObject w peripheral)))))]))"

definition rn_requestMTU ::
  "platform \<Rightarrow> nat \<Rightarrow> string \<Rightarrow> int \<Rightarrow> ble_manager \<Rightarrow> ble_manager \<times> effect list" where
  "rn_requestMTU w k peripheralId mtu s = requestMTU w peripheralId mtu (PromiseCompletion k) s"

definition rn_updateConnectionParameters ::
  "platform \<Rightarrow> nat \<Rightarrow> string \<Rightarrow> params_dict option \<Rightarrow> ble_manager \<Rightarrow> ble_manager \<times> effect list" where
  "rn_updateConnectionParameters w k peripheralId params s =
     updateConnectionParameters w peripheralId
       (case connectionParametersOf params of Some p \<Rightarrow> p | None \<Rightarrow> defaultConnectionParameters)
       (PromiseCompletion k) s"

definition rn_readRSSI :: "platform \<Rightarrow> nat \<Rightarrow> string \<Rightarrow> ble_manager \<Rightarrow> ble_manager \<times> effect list" where
  "rn_readRSSI w k peripheralId s = readRSSI w peripheralId (PromiseCompletion k) s"

definition rn_requestPermissions :: "nat \<Rightarrow> ble_manager \<Rightarrow> ble_manager \<times> effect list" where
  "rn_requestPermissions k s = (s, [Resolve k JSNull])"

subsection \<open>The manager as a transition system\<close>

text \<open>
  What can happen to the manager: a call of a bridge method (with the promise of the
  call), a delegate callback of the Adapter, or a scheduled timer or block running.
\<close>

datatype input =
    CallStartScan nat "filter_dict option" "options_dict option"
  | CallStopScan nat
  | CallConnect nat string time_interval bool "params_dict option"
  | CallDisconnect nat string
  | CallIsConnected nat string
  | CallReadCharacteristic nat string string string
  | CallWriteCharacteristic nat string string string string
  | CallEnableNotifications nat string string string bool
  | CallDiscoverServices nat string
  | CallGetBluetoothState nat
  | CallGetConnectionState nat string
  | CallRequestMTU nat string int
  | CallUpdateConnectionParameters nat string "params_dict option"
  | CallReadRSSI nat string
  | CallRequestPermissions nat
  | EvDidUpdateState
  | EvDidDiscover peripheral_ref advertisement int
  | EvDidConnect peripheral_ref
  | EvDidDisconnect peripheral_ref "nserror option"
  | EvDidFailToConnect peripheral_ref "nserror option"
  | EvDidDiscoverServices peripheral_ref "nserror option"
  | EvDidDiscoverCharacteristics peripheral_ref cbservice "nserror option"
  | EvDidUpdateValue peripheral_ref cbcharacteristic "nserror option"
  | EvDidUpdateNotificationState peripheral_ref cbcharacteristic "nserror option"
  | EvDidWriteValue peripheral_ref cbcharacteristic "nserror option"
  | EvDidReadRSSI peripheral_ref int "nserror option"
  | ScanTimerFires
  | ConnectTimeoutRuns peripheral_ref
  | ReconnectRuns peripheral_ref

fun step :: "platform \<Rightarrow> input \<Rightarrow> ble_manager \<Rightarrow> ble_manager \<times> effect list" where
  "step w (CallStartScan k flt options) s = rn_startScan w k flt options s"
| "step w (CallStopScan k) s = rn_stopScan k s"
| "step w (CallConnect k ident timeout autoReconnect params) s =
     rn_connect w k ident timeout autoReconnect params s"
| "step w (CallDisconnect k ident) s = rn_disconnect w k ident s"
| "step w (CallIsConnected k ident) s = rn_isConnected w k ident s"
| "step w (CallReadCharacteristic k p sv ch) s = rn_readCharacteristic w k p sv ch s"
| "step w (CallWriteCharacteristic k p sv ch v) s = rn_writeCharacteristic w k p sv ch v s"
| "step w (CallEnableNotifications k p sv ch en) s = rn_enableNotifications w k p sv ch en s"
| "step w (CallDiscoverServices k p) s = rn_discoverServices w k p s"
| "step w (CallGetBluetoothState k) s = rn_getBluetoothState w k s"
| "step w (CallGetConnectionState k ident) s = rn_getConnectionState w k ident s"
| "step w (CallRequestMTU k p mtu) s = rn_requestMTU w k p mtu s"
| "step w (CallUpdateConnectionParameters k p params) s =
     rn_updateConnectionParameters w k p params s"
| "step w (CallReadRSSI k p) s = rn_readRSSI w k p s"
| "step w (CallRequestPermissions k) s = rn_requestPermissions k s"
| "step w EvDidUpdateState s = centralManagerDidUpdateState w s"
| "step w (EvDidDiscover p adv rssi) s = didDiscover w p adv rssi s"
| "step w (EvDidConnect p) s = didConnect w p s"
| "step w (EvDidDisconnect p error) s = didDisconnectPeripheral w p error s"
| "step w (EvDidFailToConnect p error) s = didFailToConnect w p error s"
| "step w (EvDidDiscoverServices p error) s = didDiscoverServices w p error s"
| "step w (EvDidDiscoverCharacteristics p sv error) s = didDiscoverCharacteristicsFor w p sv error s"
| "step w (EvDidUpdateValue p ch error) s = didUpdateValueFor w p ch error s"
| "step w (EvDidUpdateNotificationState p ch error) s = didUpdateNotificationStateFor w p ch error s"
| "step w (EvDidWriteValue p ch error) s = didWriteValueFor w p ch error s"
| "step w (EvDidReadRSSI p rssi error) s = didReadRSSI w p rssi error s"
| "step w ScanTimerFires s = stopScan s"
| "step w (ConnectTimeoutRuns p) s = connectTimeoutBlock w p s"
| "step w (ReconnectRuns p) s = reconnectBlock w p s"

text \<open>
  A run: the inputs in the order in which they are processed, each with the platform as
  it is at that moment, and the effects of all of them in order.
\<close>

fun run :: "(platform \<times> input) list \<Rightarrow> ble_manager \<Rightarrow> ble_manager \<times> effect list" where
  "run [] s = (s, [])"
| "run ((w, i) # rest) s =
     (let (s1, effs) = step w i s; (s2, effs') = run rest s1 in (s2, effs @ effs'))"

subsection \<open>Observations on effects and inputs\<close>

fun isDeviceDiscovered :: "effect \<Rightarrow> bool" where
  "isDeviceDiscovered (SendEvent (onDeviceDiscovered d)) = True"
| "isDeviceDiscovered e = False"

fun isScheduleReconnect :: "effect \<Rightarrow> bool" where
  "isScheduleReconnect (ScheduleReconnect p t) = True"
| "isScheduleReconnect e = False"

fun isAdapterRequest :: "effect \<Rightarrow> bool" where
  "isAdapterRequest (ScanForPeripherals us d) = True"
| "isAdapterRequest StopScan = True"
| "isAdapterRequest (ConnectPeripheral p) = True"
| "isAdapterRequest (CancelPeripheralConnection p) = True"
| "isAdapterRequest (ReadValue p c) = True"
| "isAdapterRequest (WriteValue p d c t) = True"
| "isAdapterRequest (SetNotifyValue p b c) = True"
| "isAdapterRequest (DiscoverServices p us) = True"
| "isAdapterRequest (DiscoverCharacteristics p sv) = True"
| "isAdapterRequest (ReadRSSI p) = True"
| "isAdapterRequest e = False"

text \<open>Whether an effect settles promise \<open>k\<close>.\<close>

fun settles :: "nat \<Rightarrow> effect \<Rightarrow> bool" where
  "settles k (Resolve j v) = (j = k)"
| "settles k (Reject j c m) = (j = k)"
| "settles k e = False"

text \<open>Whether an input is a \<open>connect\<close> call for the peripheral identifier \<open>uuid\<close>.\<close>

fun isConnectFor :: "uuid \<Rightarrow> platform \<times> input \<Rightarrow> bool" where
  "isConnectFor uuid (w, CallConnect k ident timeout autoReconnect params) =
     (UUID_uuidString w ident = Some uuid)"
| "isConnectFor uuid (w, i) = False"

text \<open>
  The bridge runs \<open>disconnect\<close> on the main queue, and the Adapter calls the delegate on
  the manager's own queue, so a delegate callback can run between two statements of the
  call. A schedule says, slot by slot, whether the call runs its next statement or a
  delegate callback runs; the result is the manager, the statements the call has not yet
  run, and the effects so far.
\<close>

fun isDelegateEvent :: "input \<Rightarrow> bool" where
  "isDelegateEvent EvDidUpdateState = True"
| "isDelegateEvent (EvDidDiscover p adv rssi) = True"
| "isDelegateEvent (EvDidConnect p) = True"
| "isDelegateEvent (EvDidDisconnect p error) = True"
| "isDelegateEvent (EvDidFailToConnect p error) = True"
| "isDelegateEvent (EvDidDiscoverServices p error) = True"
| "isDelegateEvent (EvDidDiscoverCharacteristics p sv error) = True"
| "isDelegateEvent (EvDidUpdateValue p ch error) = True"
| "isDelegateEvent (EvDidUpdateNotificationState p ch error) = True"
| "isDelegateEvent (EvDidWriteValue p ch error) = True"
| "isDelegateEvent (EvDidReadRSSI p rssi error) = True"
| "isDelegateEvent i = False"

datatype slot = Statement | Delegate platform input

fun isDelegateSlot :: "slot \<Rightarrow> bool" where
  "isDelegateSlot Statement = True"
| "isDelegateSlot (Delegate w i) = isDelegateEvent i"

fun interleave ::
  "slot list \<Rightarrow> statement list \<Rightarrow> ble_manager \<Rightarrow> ble_manager \<times> statement list \<times> effect list" where
  "interleave [] stmts s = (s, stmts, [])"
| "interleave (Statement # sch) [] s = interleave sch [] s"
| "interleave (Statement # sch) (st # stmts) s =
     (let (s1, effs) = st s; (s2, rest, effs') = interleave sch stmts s1
      in (s2, rest, effs @ effs'))"
| "interleave (Delegate w i # sch) stmts s =
     (let (s1, effs) = step w i s; (s2, rest, effs') = interleave sch stmts s1
      in (s2, rest, effs @ effs'))"

text \<open>The promise of a bridge call.\<close>

fun callPromise :: "input \<Rightarrow> nat option" where
  "callPromise (CallStartScan k flt options) = Some k"
| "callPromise (CallStopScan k) = Some k"
| "callPromise (CallConnect k ident timeout autoReconnect params) = Some k"
| "callPromise (CallDisconnect k ident) = Some k"
| "callPromise (CallIsConnected k ident) = Some k"
| "callPromise (CallReadCharacteristic k p sv ch) = Some k"
| "callPromise (CallWriteCharacteristic k p sv ch v) = Some k"
| "callPromise (CallEnableNotifications k p sv ch en) = Some k"
| "callPromise (CallDiscoverServices k p) = Some k"
| "callPromise (CallGetBluetoothState k) = Some k"
| "callPromise (CallGetConnectionState k ident) = Some k"
| "callPromise (CallRequestMTU k p mtu) = Some k"
| "callPromise (CallUpdateConnectionParameters k p params) = Some k"
| "callPromise (CallReadRSSI k p) = Some k"
| "callPromise (CallRequestPermissions k) = Some k"
| "callPromise i = None"

text \<open>
  Whether the manager still holds the completion handler of promise \<open>k\<close>: the only place
  where it stores one is \<open>pendingConnections\<close>.
\<close>

definition holdsPromise :: "ble_manager \<Rightarrow> nat \<Rightarrow> bool" where
  "holdsPromise s k =
     (\<exists>uuid pending. pendingConnections s uuid = Some pending
                       \<and> cp_completion pending = PromiseCompletion k)"

text \<open>What \<open>startScan\<close> hands to the Adapter's scan request for the bridge's arguments.\<close>

definition forwardedServices :: "platform \<Rightarrow> filter_dict option \<Rightarrow> cbuuid list option" where
  "forwardedServices w flt =
     (case bleFilterOf flt of
        None \<Rightarrow> None
      | Some f \<Rightarrow> map_option (map (CBUUID_string w)) (f_serviceUUIDs f))"

definition forwardedAllowDuplicates :: "options_dict option \<Rightarrow> bool" where
  "forwardedAllowDuplicates options =
     (case options of
        None \<Rightarrow> False
      | Some opts \<Rightarrow> (case od_allowDuplicates opts of Some b \<Rightarrow> b | None \<Rightarrow> False))"

subsection \<open>A sample platform\<close>

text \<open>
  One heart-rate sensor for the examples: its identifier, its object with a cached
  service tree, and the identifier strings the examples use.
\<close>

definition heartRateMeasurement :: cbcharacteristic where
  "heartRateMeasurement =
     \<lparr>c_uuid = 0x2A37, c_properties = {prop_read, prop_notify},
      c_value = Some [0x01, 0x48], c_isNotifying = False\<rparr>"

definition controlPoint :: cbcharacteristic where
  "controlPoint =
     \<lparr>c_uuid = 0x2A39, c_properties = {prop_write}, c_value = None, c_isNotifying = False\<rparr>"

definition fastControl :: cbcharacteristic where
  "fastControl =
     \<lparr>c_uuid = 0x2A40, c_properties = {prop_writeWithoutResponse, prop_write},
      c_value = None, c_isNotifying = False\<rparr>"

definition heartRateService :: cbservice where
  "heartRateService =
     \<lparr>s_uuid = 0x180D,
      s_characteristics = Some [heartRateMeasurement, controlPoint, fastControl]\<rparr>"

definition sensorId :: string where
  "sensorId = ''6E400001-B5A3-F393-E0A9-E50E24DCCA9E''"

definition otherId :: string where
  "otherId = ''6E400002-B5A3-F393-E0A9-E50E24DCCA9E''"

definition samplePlatform :: platform where
  "samplePlatform =
     \<lparr>UUID_uuidString = (\<lambda>str. if str = sensorId then Some 101
                               else if str = otherId then Some 102 else None),
      uuidString = (\<lambda>u. if u = 101 then sensorId else otherId),
      CBUUID_string = (\<lambda>str. if str = ''180D'' then 0x180D else if str = ''2A37'' then 0x2A37
                              else if str = ''2A39'' then 0x2A39
                              else if str = ''2A40'' then 0x2A40 else 0),
      cbuuidString = (\<lambda>u. if u = 0x180D then ''180D'' else if u = 0x2A37 then ''2A37''
                            else if u = 0x2A39 then ''2A39''
                            else if u = 0x2A40 then ''2A40'' else ''0000''),
      retrievePeripherals = (\<lambda>us. []),
      peripheralObject = (\<lambda>r. \<lparr>p_identifier = (if r = 11 then 101 else 102), p_name = Some ''Sensor'', p_state = cb_connected,
                                 p_services = Some [heartRateService],
                                 p_maximumWriteValueLength = 20\<rparr>),
      centralState = cb_poweredOn\<rparr>"

definition sampleAdvertisement :: advertisement where
  "sampleAdvertisement =
     \<lparr>adv_localName = Some ''Sensor'', adv_manufacturerData = Some [0xff, 0xff],
      adv_serviceUUIDs = Some [0x180D], adv_txPowerLevel = None, adv_isConnectable = Some True\<rparr>"

definition sampleDevice :: BleDevice where
  "sampleDevice =
     \<lparr>d_id = sensorId, d_name = Some ''Sensor'', d_rssi = - 50, d_manufacturerData = Some ''ffff'',
      d_serviceUUIDs = [''180D''], d_txPowerLevel = None, d_isConnectable = True\<rparr>"

definition noFilter :: filter_dict where
  "noFilter =
     \<lparr>fd_serviceUUIDs = None, fd_name = None, fd_namePrefix = None, fd_manufacturerData = None,
      fd_minRssi = None\<rparr>"

definition noOptions :: options_dict where
  "noOptions =
     \<lparr>od_scanMode = None, od_timeout = None, od_continuous = None, od_allowDuplicates = None\<rparr>"

text \<open>The manager after a scan has found the sensor and a \<open>connect\<close> call has succeeded.\<close>

definition connectedManager :: ble_manager where
  "connectedManager =
     fst (run [(samplePlatform, CallStartScan 1 None None),
               (samplePlatform, EvDidDiscover 11 sampleAdvertisement (- 50)),
               (samplePlatform, CallConnect 2 sensorId 30 True None),
               (samplePlatform, EvDidConnect 11)] initialManager)"

section \<open>Packetizer: results\<close>

lemma splitLoop_diverges:
  assumes "maxPayloadSize \<le> 0" and "i < int (length data)"
  shows "splitLoop data maxPayloadSize i packets = None"
proof (cases "splitLoop data maxPayloadSize i packets")
  case (Some y)
  have "\<not> (maxPayloadSize \<le> 0 \<and> i < int (length data))"
    by (rule splitLoop.raw_induct
          [where P = "\<lambda>d m j acc r. \<not> (m \<le> 0 \<and> j < int (length d))", OF _ Some])
       (fastforce simp: Let_def split: if_splits)
  with assms show ?thesis by simp
qed simp

lemma splitLoop_returns:
  assumes "0 < m" and "0 \<le> i"
  shows "\<exists>ps. splitLoop data m i acc = Some (acc @ ps) \<and> concat ps = drop (nat i) data
            \<and> (\<forall>p\<in>set ps. p \<noteq> [] \<and> int (length p) \<le> m)"
  using assms
proof (induction "nat (int (length data) - i)" arbitrary: i acc rule: less_induct)
  case less
  show ?case
  proof (cases "i < int (length data)")
    case False
    then show ?thesis using less.prems by (subst splitLoop.simps) simp
  next
    case True
    let ?e = "min (i + m) (int (length data))"
    let ?p = "slice_js data i ?e"
    have p: "?p = take (nat m) (drop (nat i) data)"
      using True less.prems by (auto simp: slice_js_def Let_def min_def)
    have "nat (int (length data) - (i + m)) < nat (int (length data) - i)"
      using True less.prems by simp
    from less.hyps [OF this, of "acc @ [?p]"] less.prems
    obtain ps where ps: "splitLoop data m (i + m) (acc @ [?p]) = Some ((acc @ [?p]) @ ps)"
      "concat ps = drop (nat (i + m)) data" "\<forall>p\<in>set ps. p \<noteq> [] \<and> int (length p) \<le> m"
      by auto
    have 1: "splitLoop data m i acc = Some (acc @ (?p # ps))"
      using True ps(1) by (subst splitLoop.simps) (simp add: Let_def)
    have 2: "concat (?p # ps) = drop (nat i) data"
    proof -
      have "nat (i + m) = nat m + nat i" using less.prems by simp
      then have "concat ps = drop (nat m) (drop (nat i) data)" using ps(2) by (simp add: drop_drop)
      then show ?thesis unfolding p by (simp only: concat.simps append_take_drop_id)
    qed
    have 3: "?p \<noteq> [] \<and> int (length ?p) \<le> m"
      using True less.prems unfolding p by auto
    show ?thesis using 1 2 3 ps(3) by (intro exI [of _ "?p # ps"]) simp
  qed
qed

lemma foldl_length_sum:
  "foldl (\<lambda>sum packet. sum + length packet) n packets = n + length (concat packets)"
  by (induction packets arbitrary: n) auto

lemma reassembleLoop_concat:
  "offset + length (concat packets) \<le> length result \<Longrightarrow>
   reassembleLoop packets result offset =
     Inr (take offset result @ concat packets @ drop (offset + length (concat packets)) result)"
proof (induction packets arbitrary: result offset)
  case Nil
  then show ?case by simp
next
  case (Cons p ps)
  let ?r = "take offset result @ p @ drop (offset + length p) result"
  have fits: "typedArraySet result p offset = Inr ?r"
    using Cons.prems by (simp add: typedArraySet_def)
  have len: "length (take offset result @ p) = offset + length p"
    using Cons.prems by simp
  have t: "take (offset + length p) ?r = take offset result @ p"
    using len by (simp only: append.assoc [symmetric] append_eq_conv_conj take_append) simp
  have d0: "drop (offset + length p) ?r = drop (offset + length p) result"
    using len by (simp only: append.assoc [symmetric] drop_append) simp
  have d: "drop (offset + length p + length (concat ps)) ?r
             = drop (offset + length p + length (concat ps)) result"
  proof -
    have "drop (length (concat ps)) (drop (offset + length p) ?r)
            = drop (length (concat ps)) (drop (offset + length p) result)"
      by (simp only: d0)
    then have "drop (length (concat ps) + (offset + length p)) ?r
            = drop (length (concat ps) + (offset + length p)) result"
      by (simp only: drop_drop)
    then show ?thesis by (simp only: add.commute [of "length (concat ps)"])
  qed
  have "(offset + length p) + length (concat ps) \<le> length ?r"
    using Cons.prems by simp
  from Cons.IH [OF this] have
    "reassembleLoop ps ?r (offset + length p)
       = Inr (take offset result @ concat (p # ps)
                @ drop (offset + length (concat (p # ps))) result)"
    unfolding t d by (simp add: add.assoc)
  with fits show ?case by simp
qed

lemma reassemblePackets_concat: "reassemblePackets packets = Inr (concat packets)"
  by (simp add: reassemblePackets_def Let_def foldl_length_sum reassembleLoop_concat)

lemma splitIntoPackets_returns:
  assumes "0 < mtu - headerSize"
  shows "\<exists>ps. splitIntoPackets data mtu headerSize = Some ps \<and> concat ps = data
            \<and> (\<forall>p\<in>set ps. p \<noteq> [] \<and> int (length p) \<le> mtu - headerSize)"
  using splitLoop_returns [OF assms, of 0 data "[]"] by (simp add: splitIntoPackets_def)

text \<open>
  C1. For every byte sequence \<open>d\<close> and every MTU of at least 1, with a header size of 0,
  \<open>splitIntoPackets\<close> returns: an ordered list of chunks that concatenate to \<open>d\<close>
  (so they cover it exactly once, in order and without overlap), each of at most \<open>mtu\<close>
  bytes, none when \<open>d\<close> is empty; \<open>reassemblePackets\<close> concatenates any packets in the
  given order, and gives \<open>d\<close> back on the packets of \<open>d\<close>.
\<close>

theorem split_reassemble_roundtrip:
  assumes "1 \<le> mtu"
  shows "\<exists>packets. splitIntoPackets d mtu 0 = Some packets
            \<and> reassemblePackets packets = Inr d
            \<and> concat packets = d
            \<and> (\<forall>p\<in>set packets. int (length p) \<le> mtu - 0)
            \<and> (d = [] \<longrightarrow> packets = [])
            \<and> (\<forall>qs. reassemblePackets qs = Inr (concat qs))"
proof -
  from assms have "0 < mtu - 0" by simp
  from splitIntoPackets_returns [OF this, of d]
  obtain ps where ps: "splitIntoPackets d mtu 0 = Some ps" "concat ps = d"
    "\<forall>p\<in>set ps. p \<noteq> [] \<and> int (length p) \<le> mtu - 0"
    by blast
  have "ps = []" if "d = []"
  proof (cases ps)
    case (Cons p qs)
    with ps(3) have "p \<noteq> []" by simp
    with Cons ps(2) that show ?thesis by simp
  qed simp
  with ps show ?thesis
    by (intro exI [of _ ps]) (simp add: reassemblePackets_concat)
qed

theorem split_reassemble_roundtrip_witness:
  "(1::int) \<le> 2
   \<and> splitIntoPackets [1, 2, 3, 4, 5] 2 0 = Some [[1, 2], [3, 4], [5]]
   \<and> (\<exists>packets. splitIntoPackets [1, 2, 3, 4, 5] 2 0 = Some packets
         \<and> reassemblePackets packets = Inr [1, 2, 3, 4, 5]
         \<and> concat packets = [1, 2, 3, 4, 5]
         \<and> (\<forall>p\<in>set packets. int (length p) \<le> 2 - 0)
         \<and> ([1, 2, 3, 4, 5 :: byte] = [] \<longrightarrow> packets = [])
         \<and> (\<forall>qs. reassemblePackets qs = Inr (concat qs)))"
proof -
  have h: "(1::int) \<le> 2" by simp
  have e: "splitIntoPackets [1, 2, 3, 4, 5] 2 0 = Some [[1, 2], [3, 4], [5]]"
    by (simp add: splitIntoPackets_def splitLoop.simps slice_js_def)
  show ?thesis using h e split_reassemble_roundtrip [OF h, of "[1, 2, 3, 4, 5]"] by blast
qed

text \<open>
  C8. When \<open>mtu - headerSize \<le> 0\<close> the source has no check and raises nothing: on an
  empty buffer \<open>splitIntoPackets\<close> returns the empty list of packets, and on any other
  buffer its loop never ends, since \<open>i\<close> never reaches \<open>data.length\<close>.
\<close>

theorem splitIntoPackets_nonpositive_payload:
  assumes "mtu - headerSize \<le> 0"
  shows "splitIntoPackets data mtu headerSize = (if data = [] then Some [] else None)"
proof (cases "data = []")
  case True
  then show ?thesis by (simp add: splitIntoPackets_def splitLoop.simps)
next
  case False
  then have "(0::int) < int (length data)" by simp
  from splitLoop_diverges [OF assms this] False show ?thesis
    by (simp add: splitIntoPackets_def)
qed

theorem splitIntoPackets_nonpositive_payload_witness:
  "(23::int) - 23 \<le> 0 \<and> splitIntoPackets [0x01] 23 23 = None"
proof -
  have h: "(23::int) - 23 \<le> 0" by simp
  show ?thesis using h splitIntoPackets_nonpositive_payload [OF h, of "[0x01]"] by simp
qed

section \<open>ByteCodec: results\<close>

subsection \<open>Integer codecs\<close>

lemma js_and_ff: "js_and a 0xff = take_bit 8 a"
proof -
  have m: "mask 8 = (255::int)" by (simp add: mask_eq_exp_minus_1)
  have "signed_take_bit 31 a AND mask 8 = take_bit 8 a"
    by (simp only: take_bit_eq_mask [symmetric]) (simp add: take_bit_signed_take_bit)
  then have "signed_take_bit 31 a AND 255 = take_bit 8 a" unfolding m .
  moreover have "toInt32 255 = 255" by (simp add: toInt32_def signed_take_bit_eq_take_bit_minus)
  ultimately show ?thesis by (simp add: js_and_def toInt32_def)
qed

lemma js_and_ffff: "js_and a 0xffff = take_bit 16 a"
proof -
  have m: "mask 16 = (65535::int)" by (simp add: mask_eq_exp_minus_1)
  have "signed_take_bit 31 a AND mask 16 = take_bit 16 a"
    by (simp only: take_bit_eq_mask [symmetric]) (simp add: take_bit_signed_take_bit)
  then have "signed_take_bit 31 a AND 65535 = take_bit 16 a" unfolding m .
  moreover have "toInt32 65535 = 65535" by (simp add: toInt32_def signed_take_bit_eq_take_bit_minus)
  ultimately show ?thesis by (simp add: js_and_def toInt32_def)
qed

lemma js_and_ffffffff: "js_and a 0xffffffff = toInt32 a"
proof -
  have "toInt32 4294967295 = - 1" by (simp add: toInt32_def signed_take_bit_eq_take_bit_minus)
  then show ?thesis by (simp add: js_and_def)
qed

lemma uint_toUint8: "uint (toUint8 v) = take_bit 8 v"
  by (simp add: toUint8_def uint_word_of_int_eq)

lemma js_sar_numeral:
  "js_sar v 8 = drop_bit 8 (toInt32 v)"
  "js_sar v 16 = drop_bit 16 (toInt32 v)"
  "js_sar v 24 = drop_bit 24 (toInt32 v)"
  by (simp_all add: js_sar_def)

lemma js_shl_numeral:
  "js_shl v 8 = toInt32 (push_bit 8 (toInt32 v))"
  "js_shl v 16 = toInt32 (push_bit 16 (toInt32 v))"
  "js_shl v 24 = toInt32 (push_bit 24 (toInt32 v))"
  by (simp_all add: js_shl_def)

lemmas codec_simps =
  elem_def uint_toUint8 js_and_ff js_sar_numeral js_shl_numeral js_or_def toInt32_def

lemma bits16:
  "signed_take_bit 31 (push_bit 8 (signed_take_bit 31 (take_bit 8 (drop_bit 8 (signed_take_bit 31 v)))))
     OR signed_take_bit 31 (take_bit 8 v) = take_bit 16 v" for v :: int
  by (rule bit_eqI) (auto simp: bit_simps)

lemma bits32:
  "signed_take_bit 31
     (signed_take_bit 31
       (signed_take_bit 31 (push_bit 24 (signed_take_bit 31 (take_bit 8 (drop_bit 24 (signed_take_bit 31 v)))))
        OR signed_take_bit 31 (push_bit 16 (signed_take_bit 31 (take_bit 8 (drop_bit 16 (signed_take_bit 31 v))))))
      OR signed_take_bit 31 (push_bit 8 (signed_take_bit 31 (take_bit 8 (drop_bit 8 (signed_take_bit 31 v))))))
     OR signed_take_bit 31 (take_bit 8 v) = signed_take_bit 31 v" for v :: int
proof (rule bit_eqI)
  fix n :: nat
  consider "n < 8" | "8 \<le> n" "n < 16" | "16 \<le> n" "n < 24" | "24 \<le> n" "n < 31" | "31 \<le> n"
    by linarith
  then show "bit (signed_take_bit 31
     (signed_take_bit 31
       (signed_take_bit 31 (push_bit 24 (signed_take_bit 31 (take_bit 8 (drop_bit 24 (signed_take_bit 31 v)))))
        OR signed_take_bit 31 (push_bit 16 (signed_take_bit 31 (take_bit 8 (drop_bit 16 (signed_take_bit 31 v))))))
      OR signed_take_bit 31 (push_bit 8 (signed_take_bit 31 (take_bit 8 (drop_bit 8 (signed_take_bit 31 v))))))
     OR signed_take_bit 31 (take_bit 8 v)) n = bit (signed_take_bit 31 v) n"
    by cases (auto simp add: bit_simps)
qed

lemma uint16LE_decode_encode: "uint8ArrayToUint16LE (uint16LEToUint8Array v) = take_bit 16 v"
  by (simp add: uint8ArrayToUint16LE_def uint16LEToUint8Array_def codec_simps bits16)

lemma uint16BE_decode_encode: "uint8ArrayToUint16BE (uint16BEToUint8Array v) = take_bit 16 v"
  by (simp add: uint8ArrayToUint16BE_def uint16BEToUint8Array_def codec_simps bits16)

lemma uint32LE_decode_encode: "uint8ArrayToUint32LE (uint32LEToUint8Array v) = signed_take_bit 31 v"
  by (simp add: uint8ArrayToUint32LE_def uint32LEToUint8Array_def codec_simps bits32)

lemma uint32BE_decode_encode: "uint8ArrayToUint32BE (uint32BEToUint8Array v) = signed_take_bit 31 v"
  by (simp add: uint8ArrayToUint32BE_def uint32BEToUint8Array_def codec_simps bits32)

lemma signed16:
  "(if take_bit 16 v > 0x7fff then take_bit 16 v - 0x10000 else take_bit 16 v)
     = signed_take_bit 15 v" for v :: int
proof -
  have split: "take_bit 16 v = take_bit 15 v + 2 ^ 15 * of_bool (bit v 15)"
    using take_bit_Suc_from_most [of 15 v] by simp
  have lo: "0 \<le> take_bit 15 v" by simp
  have hi: "take_bit 15 v < 32768" using take_bit_int_less_exp [of 15 v] by simp
  show ?thesis
  proof (cases "bit v 15")
    case True
    have "0 < 1 + take_bit 15 v" using lo by linarith
    with True split hi show ?thesis
      by (simp add: signed_take_bit_eq_take_bit_minus)
  next
    case False
    then show ?thesis using split lo hi
      by (simp add: signed_take_bit_eq_take_bit_minus)
  qed
qed

lemma signed_take_bit_15_id: "- 32768 \<le> v \<Longrightarrow> v \<le> 32767 \<Longrightarrow> signed_take_bit 15 v = v" for v :: int
  by (simp add: signed_take_bit_int_eq_self)

lemma signed_take_bit_31_id:
  "- 2147483648 \<le> v \<Longrightarrow> v \<le> 2147483647 \<Longrightarrow> signed_take_bit 31 v = v" for v :: int
  by (simp add: signed_take_bit_int_eq_self)

lemma signed_take_bit_31_high:
  "2147483648 \<le> v \<Longrightarrow> v \<le> 4294967295 \<Longrightarrow> signed_take_bit 31 v = v - 4294967296" for v :: int
proof -
  assume a: "2147483648 \<le> v" "v \<le> 4294967295"
  have "signed_take_bit 31 v = signed_take_bit 31 (v - 1 * 2 ^ Suc 31)"
    by (simp only: signed_take_bit_eq_iff_take_bit_eq take_bit_int_def) (simp add: mod_diff_eq)
  also have "\<dots> = v - 4294967296"
    using a by (simp add: signed_take_bit_int_eq_self)
  finally show ?thesis .
qed

lemma int16LE_decode_encode: "uint8ArrayToInt16LE (int16LEToUint8Array v) = signed_take_bit 15 v"
  by (simp add: uint8ArrayToInt16LE_def int16LEToUint8Array_def uint16LE_decode_encode js_and_ffff
      Let_def signed16 [simplified])

lemma int16BE_decode_encode: "uint8ArrayToInt16BE (int16BEToUint8Array v) = signed_take_bit 15 v"
  by (simp add: uint8ArrayToInt16BE_def int16BEToUint8Array_def uint16BE_decode_encode js_and_ffff
      Let_def signed16 [simplified])

lemma signed_take_bit_31_le: "signed_take_bit 31 v \<le> 2147483647" for v :: int
  using signed_take_bit_int_less_exp [of 31 v] by simp

lemma int32LE_decode_encode: "uint8ArrayToInt32LE (int32LEToUint8Array v) = signed_take_bit 31 v"
  using signed_take_bit_31_le [of v]
  by (simp add: uint8ArrayToInt32LE_def int32LEToUint8Array_def uint32LE_decode_encode
      js_and_ffffffff toInt32_def Let_def)

lemma int32BE_decode_encode: "uint8ArrayToInt32BE (int32BEToUint8Array v) = signed_take_bit 31 v"
  using signed_take_bit_31_le [of v]
  by (simp add: uint8ArrayToInt32BE_def int32BEToUint8Array_def uint32BE_decode_encode
      js_and_ffffffff toInt32_def Let_def)

text \<open>
  What holds of the integer codecs: both 16-bit codecs and the signed 32-bit codec give
  every representable value back, in both byte orders; the unsigned 32-bit codec does so
  below \<open>2\<^sup>3\<^sup>1\<close>; every encoder returns 2 or 4 bytes.
\<close>

lemma uint16_roundtrip:
  assumes "0 \<le> v" and "v \<le> 65535"
  shows "uint8ArrayToUint16LE (uint16LEToUint8Array v) = v"
    and "uint8ArrayToUint16BE (uint16BEToUint8Array v) = v"
  using assms by (simp_all add: uint16LE_decode_encode uint16BE_decode_encode take_bit_int_eq_self)

lemma int16_roundtrip:
  assumes "- 32768 \<le> v" and "v \<le> 32767"
  shows "uint8ArrayToInt16LE (int16LEToUint8Array v) = v"
    and "uint8ArrayToInt16BE (int16BEToUint8Array v) = v"
  using assms by (simp_all add: int16LE_decode_encode int16BE_decode_encode signed_take_bit_15_id)

lemma int32_roundtrip:
  assumes "- 2147483648 \<le> v" and "v \<le> 2147483647"
  shows "uint8ArrayToInt32LE (int32LEToUint8Array v) = v"
    and "uint8ArrayToInt32BE (int32BEToUint8Array v) = v"
  using assms by (simp_all add: int32LE_decode_encode int32BE_decode_encode signed_take_bit_31_id)

lemma uint32_roundtrip_low:
  assumes "0 \<le> v" and "v \<le> 2147483647"
  shows "uint8ArrayToUint32LE (uint32LEToUint8Array v) = v"
    and "uint8ArrayToUint32BE (uint32BEToUint8Array v) = v"
  using assms by (simp_all add: uint32LE_decode_encode uint32BE_decode_encode signed_take_bit_31_id)

lemma uint32_roundtrip_high:
  assumes "2147483648 \<le> v" and "v \<le> 4294967295"
  shows "uint8ArrayToUint32LE (uint32LEToUint8Array v) = v - 4294967296"
    and "uint8ArrayToUint32BE (uint32BEToUint8Array v) = v - 4294967296"
  using assms
  by (simp_all add: uint32LE_decode_encode uint32BE_decode_encode signed_take_bit_31_high)

lemma encoders_length:
  "length (uint16LEToUint8Array v) = 2" "length (uint16BEToUint8Array v) = 2"
  "length (int16LEToUint8Array v) = 2" "length (int16BEToUint8Array v) = 2"
  "length (uint32LEToUint8Array v) = 4" "length (uint32BEToUint8Array v) = 4"
  "length (int32LEToUint8Array v) = 4" "length (int32BEToUint8Array v) = 4"
  by (simp_all add: uint16LEToUint8Array_def uint16BEToUint8Array_def int16LEToUint8Array_def
      int16BEToUint8Array_def uint32LEToUint8Array_def uint32BEToUint8Array_def
      int32LEToUint8Array_def int32BEToUint8Array_def)

text \<open>
  C6. The unsigned 32-bit codec is not symmetric on the upper half of its range: the
  decoders build the value with \<open><<\<close> and \<open>|\<close>, whose result is a signed 32-bit
  integer, so for every \<open>v\<close> from \<open>2\<^sup>3\<^sup>1\<close> to \<open>2\<^sup>3\<^sup>2 - 1\<close> the four bytes of \<open>v\<close>
  decode to \<open>v - 2\<^sup>3\<^sup>2\<close>, in both byte orders: \<open>4294967295\<close> comes back as \<open>-1\<close>.
\<close>

theorem uint32_decode_encode_upper_half:
  assumes "2147483648 \<le> v" and "v \<le> 4294967295"
  shows "uint8ArrayToUint32LE (uint32LEToUint8Array v) = v - 4294967296
         \<and> uint8ArrayToUint32BE (uint32BEToUint8Array v) = v - 4294967296
         \<and> uint8ArrayToUint32LE (uint32LEToUint8Array v) \<noteq> v
         \<and> uint8ArrayToUint32BE (uint32BEToUint8Array v) \<noteq> v
         \<and> length (uint32LEToUint8Array v) = 4 \<and> length (uint32BEToUint8Array v) = 4"
  using uint32_roundtrip_high [OF assms] by (simp add: encoders_length)

theorem uint32_decode_encode_upper_half_witness:
  "(2147483648::int) \<le> 4294967295
   \<and> uint32LEToUint8Array 4294967295 = [255, 255, 255, 255]
   \<and> uint8ArrayToUint32LE (uint32LEToUint8Array 4294967295) = - 1
   \<and> uint8ArrayToUint32BE (uint32BEToUint8Array 4294967295) = - 1"
proof -
  have h: "(2147483648::int) \<le> 4294967295" "(4294967295::int) \<le> 4294967295"
    by simp_all
  have e: "uint32LEToUint8Array 4294967295 = [255, 255, 255, 255]"
    by code_simp
  show ?thesis
    using h(1) e uint32_decode_encode_upper_half [OF h] by simp
qed

subsection \<open>Hex strings\<close>

lemma length_hexLoop:
  "length (hexLoop hex i data) = length data + (length hex - i + 1) div 2"
proof (induction hex i data rule: hexLoop.induct)
  case (1 hex i data)
  show ?case
  proof (cases "i < length hex")
    case True
    with "1" show ?thesis by (subst hexLoop.simps) (simp, arith)
  next
    case False
    then show ?thesis by (subst hexLoop.simps) simp
  qed
qed

text \<open>\<open>hexToUint8Array\<close> returns bytes for every string: one for every two characters,
  and one more for a last single character.\<close>

lemma length_hexToUint8Array: "length (hexToUint8Array hex) = (length hex + 1) div 2"
  by (simp add: hexToUint8Array_def length_hexLoop)

text \<open>The native \<open>Data(hexString:)\<close> rejects the same strings.\<close>

lemma Data_hexString_rejects: "Data_hexString ''abc'' = None" "Data_hexString ''zz'' = None"
  by code_simp+

text \<open>It does accept a sign in front of a digit, as Swift's \<open>UInt8(_:radix:)\<close> does.\<close>

lemma Data_hexString_accepts_sign: "Data_hexString ''+f-0'' = Some [0x0f, 0x00]"
  by code_simp

text \<open>
  C7. \<open>hexToUint8Array\<close> has no failure: every string gives bytes, one for every two
  characters and one more for a last single character. A string of odd length and a
  string with characters that are not hex digits both give bytes: \<open>"abc"\<close> gives
  \<open>ab 0c\<close>, \<open>"zz"\<close> gives \<open>00\<close> (the \<open>NaN\<close> of \<open>parseInt\<close> stored in a
  \<open>Uint8Array\<close>), \<open>"-1"\<close> gives \<open>ff\<close>.
\<close>

theorem hexToUint8Array_malformed:
  "length (hexToUint8Array hex) = (length hex + 1) div 2
   \<and> hexToUint8Array ''abc'' = [0xab, 0x0c]
   \<and> hexToUint8Array ''zz'' = [0x00]
   \<and> hexToUint8Array ''-1'' = [0xff]
   \<and> \<not> validateHexString ''abc'' \<and> \<not> validateHexString ''zz'' \<and> \<not> validateHexString ''-1''"
proof -
  have "hexToUint8Array ''abc'' = [0xab, 0x0c]" "hexToUint8Array ''zz'' = [0x00]"
    "hexToUint8Array ''-1'' = [0xff]"
    by code_simp+
  moreover have "\<not> validateHexString ''abc''" "\<not> validateHexString ''zz''"
    "\<not> validateHexString ''-1''"
    by code_simp+
  ultimately show ?thesis
    by (simp add: length_hexToUint8Array)
qed

section \<open>The native manager: results\<close>

subsection \<open>The body of \<open>disconnect\<close>, run without interruption\<close>

lemma disconnect_eq:
  "disconnect w ident completion s =
     (case (case UUID_uuidString w ident of
              None \<Rightarrow> None
            | Some uuid \<Rightarrow> (case peripherals s uuid of
                              None \<Rightarrow> None
                            | Some peripheral \<Rightarrow> Some (uuid, peripheral))) of
        None \<Rightarrow> (s, complete completion JSNull (Some (bleError (- 1) ''Peripheral not found'')))
      | Some (uuid, peripheral) \<Rightarrow>
          (s\<lparr>autoReconnectMap := (autoReconnectMap s)(uuid \<mapsto> False)\<rparr>,
           [CancelPeripheralConnection peripheral] @ complete completion JSNull None))"
  by (simp add: disconnect_def disconnectStatements_def split: option.splits)

subsection \<open>Evaluating the sample\<close>

lemmas sample_defs = samplePlatform_def sensorId_def otherId_def heartRateService_def
  heartRateMeasurement_def controlPoint_def fastControl_def sampleAdvertisement_def
  sampleDevice_def noFilter_def noOptions_def

lemmas op_defs = rn_startScan_def startScan_def bleFilterOf_def bleOptionsOf_def
  defaultScanOptions_def didDiscover_def createBleDevice_def shouldFilterDevice_def
  identifierOf_def identifierString_def rn_connect_def connect_def connectToPeripheral_def
  connectionParametersOf_def didConnect_def log_ble_def connectionStateChanged_def
  initialManager_def

lemma hexString_samples:
  "hexString [0xff, 0xff] = ''ffff''" "hexString [0x01, 0x48] = ''0148''"
  by code_simp+

lemma connectedManager_eq:
  "connectedManager =
     \<lparr>peripherals = [101 \<mapsto> 11], pendingConnections = Map.empty, autoReconnectMap = [101 \<mapsto> True],
      connectionParameters = Map.empty, scanTimer = True,
      discoveredDevices = [101 \<mapsto> sampleDevice],
      scanCallback = True, scanFilter = None, scanOptions = Some defaultScanOptions,
      stateCallback = True, connectionStateCallback = True, notificationCallback = True,
      logCallback = True, mtuCallback = True, rssiCallback = True\<rparr>"
  by (simp add: connectedManager_def op_defs sample_defs Let_def hexString_samples)

lemma sample_lookup:
  "getPeripheral samplePlatform connectedManager sensorId = Some 11"
  "findCharacteristic samplePlatform 11 (CBUUID_string samplePlatform ''180D'')
     (CBUUID_string samplePlatform ''2A40'') = Completion (Some fastControl)"
  "findCharacteristic samplePlatform 11 (CBUUID_string samplePlatform ''180D'')
     (CBUUID_string samplePlatform ''2A39'') = Completion (Some controlPoint)"
  "findCharacteristic samplePlatform 11 (CBUUID_string samplePlatform ''180D'')
     (CBUUID_string samplePlatform ''2A37'') = Completion (Some heartRateMeasurement)"
  by (simp_all add: getPeripheral_def findCharacteristic_def connectedManager_eq sample_defs)

lemma Data_hexString_sample: "Data_hexString ''0102'' = Some [0x01, 0x02]"
  by code_simp

lemma createBleDevice_sample:
  "createBleDevice samplePlatform 11 sampleAdvertisement (- 50) = sampleDevice"
  by (simp add: createBleDevice_def sample_defs identifierString_def identifierOf_def
      hexString_samples)

lemma Data_hexString_4c00: "Data_hexString ''4c00'' = Some [0x4c, 0x00]"
  by code_simp

subsection \<open>Runs\<close>

lemma fst_run_Cons: "fst (run ((w, i) # tr) s) = fst (run tr (fst (step w i s)))"
  by (simp split: prod.splits)

lemma snd_run_Cons:
  "snd (run ((w, i) # tr) s) = snd (step w i s) @ snd (run tr (fst (step w i s)))"
  by (simp split: prod.splits)

subsection \<open>Unknown identifiers\<close>

text \<open>
  C10. For an identifier that does not parse as a UUID, and for one that parses but names
  no peripheral the manager holds, \<open>isConnected\<close> resolves its promise with \<open>false\<close> and
  \<open>getConnectionState\<close> resolves its promise with 0 (\<open>DISCONNECTED\<close>); neither rejects,
  and the manager is unchanged.
\<close>

theorem unknown_identifier_resolves:
  assumes "UUID_uuidString w ident = None
           \<or> (\<exists>uuid. UUID_uuidString w ident = Some uuid \<and> peripherals s uuid = None)"
  shows "rn_isConnected w k ident s = (s, [Resolve k (JSBool False)])
         \<and> rn_getConnectionState w k ident s = (s, [Resolve k (JSNumber 0)])"
  using assms by (auto simp: rn_isConnected_def rn_getConnectionState_def)

theorem unknown_identifier_resolves_witness:
  "UUID_uuidString samplePlatform ''not-a-uuid'' = None
   \<and> rn_isConnected samplePlatform 5 ''not-a-uuid'' connectedManager
        = (connectedManager, [Resolve 5 (JSBool False)])
   \<and> rn_getConnectionState samplePlatform 5 ''not-a-uuid'' connectedManager
        = (connectedManager, [Resolve 5 (JSNumber 0)])
   \<and> UUID_uuidString samplePlatform otherId = Some 102 \<and> peripherals connectedManager 102 = None
   \<and> rn_isConnected samplePlatform 6 otherId connectedManager
        = (connectedManager, [Resolve 6 (JSBool False)])
   \<and> rn_getConnectionState samplePlatform 6 otherId connectedManager
        = (connectedManager, [Resolve 6 (JSNumber 0)])"
proof -
  have a: "UUID_uuidString samplePlatform ''not-a-uuid'' = None"
    by (simp add: samplePlatform_def sensorId_def otherId_def)
  have b: "UUID_uuidString samplePlatform otherId = Some 102"
    by (simp add: samplePlatform_def sensorId_def otherId_def)
  have c: "peripherals connectedManager 102 = None"
    by (simp add: connectedManager_eq)
  show ?thesis
    using a b c
      unknown_identifier_resolves [of samplePlatform "''not-a-uuid''" connectedManager 5]
      unknown_identifier_resolves [of samplePlatform otherId connectedManager 6]
    by simp
qed

subsection \<open>Write mode\<close>

text \<open>
  C9. A write to a known peripheral, with a valid hex payload, to a characteristic found in
  the cached service tree: without response when the characteristic has
  \<open>writeWithoutResponse\<close>; otherwise with response when it has \<open>write\<close>; otherwise the
  promise is rejected with "Characteristic not writable" and no request goes to the
  Adapter.
\<close>

theorem write_mode_by_capability:
  assumes "getPeripheral w s peripheralId = Some peripheral"
    and "Data_hexString val = Some data"
    and "findCharacteristic w peripheral (CBUUID_string w serviceUuid)
           (CBUUID_string w characteristicUuid) = Completion (Some characteristic)"
  shows "rn_writeCharacteristic w k peripheralId serviceUuid characteristicUuid val s =
           (s, if prop_writeWithoutResponse \<in> c_properties characteristic
               then [WriteValue peripheral data characteristic withoutResponse]
               else if prop_write \<in> c_properties characteristic
               then [WriteValue peripheral data characteristic withResponse]
               else [Reject k ''BleError'' ''Characteristic not writable''])
         \<and> (prop_writeWithoutResponse \<notin> c_properties characteristic
              \<and> prop_write \<notin> c_properties characteristic \<longrightarrow>
            \<not> list_ex isAdapterRequest
                 (snd (rn_writeCharacteristic w k peripheralId serviceUuid characteristicUuid val s)))"
  using assms
  by (simp add: rn_writeCharacteristic_def writeCharacteristic_def bleError_def Let_def)

theorem write_mode_by_capability_witness:
  "getPeripheral samplePlatform connectedManager sensorId = Some 11
   \<and> Data_hexString ''0102'' = Some [0x01, 0x02]
   \<and> rn_writeCharacteristic samplePlatform 3 sensorId ''180D'' ''2A40'' ''0102'' connectedManager
       = (connectedManager, [WriteValue 11 [0x01, 0x02] fastControl withoutResponse])
   \<and> rn_writeCharacteristic samplePlatform 4 sensorId ''180D'' ''2A39'' ''0102'' connectedManager
       = (connectedManager, [WriteValue 11 [0x01, 0x02] controlPoint withResponse])
   \<and> rn_writeCharacteristic samplePlatform 5 sensorId ''180D'' ''2A37'' ''0102'' connectedManager
       = (connectedManager, [Reject 5 ''BleError'' ''Characteristic not writable''])"
proof -
  note w = write_mode_by_capability [OF sample_lookup(1) Data_hexString_sample]
  have 1: "rn_writeCharacteristic samplePlatform 3 sensorId ''180D'' ''2A40'' ''0102'' connectedManager
       = (connectedManager, [WriteValue 11 [0x01, 0x02] fastControl withoutResponse])"
    using w [OF sample_lookup(2), of 3] by (simp add: fastControl_def)
  have 2: "rn_writeCharacteristic samplePlatform 4 sensorId ''180D'' ''2A39'' ''0102'' connectedManager
       = (connectedManager, [WriteValue 11 [0x01, 0x02] controlPoint withResponse])"
    using w [OF sample_lookup(3), of 4] by (simp add: controlPoint_def)
  have 3: "rn_writeCharacteristic samplePlatform 5 sensorId ''180D'' ''2A37'' ''0102'' connectedManager
       = (connectedManager, [Reject 5 ''BleError'' ''Characteristic not writable''])"
    using w [OF sample_lookup(4), of 5] by (simp add: heartRateMeasurement_def)
  show ?thesis using 1 2 3 sample_lookup(1) Data_hexString_sample by simp
qed

subsection \<open>Reading a characteristic\<close>

lemmas step_defs = rn_startScan_def startScan_def rn_stopScan_def stopScan_def rn_connect_def
        connect_def connectToPeripheral_def rn_disconnect_def disconnect_eq rn_isConnected_def
        rn_readCharacteristic_def readCharacteristic_def rn_writeCharacteristic_def
        writeCharacteristic_def rn_enableNotifications_def enableNotifications_def
        rn_discoverServices_def discoverServices_def rn_getBluetoothState_def
        rn_getConnectionState_def rn_requestMTU_def requestMTU_def
        rn_updateConnectionParameters_def updateConnectionParameters_def rn_readRSSI_def
        readRSSI_def rn_requestPermissions_def centralManagerDidUpdateState_def didDiscover_def
        didConnect_def didDisconnectPeripheral_def didFailToConnect_def didDiscoverServices_def
        didDiscoverCharacteristicsFor_def didUpdateValueFor_def didUpdateNotificationStateFor_def
        didWriteValueFor_def didReadRSSI_def connectTimeoutBlock_def reconnectBlock_def

lemma settles_complete:
  "list_ex (settles k) (complete c v e) \<longleftrightarrow> c = PromiseCompletion k"
  by (cases c; cases e) auto

lemma settles_log [simp]: "\<not> list_ex (settles k) (log_ble s m)"
  by (simp add: log_ble_def)

lemma settles_csc [simp]: "\<not> list_ex (settles k) (connectionStateChanged s i st)"
  by (simp add: connectionStateChanged_def)

lemma settles_map_dc [simp]: "\<not> list_ex (settles k) (map (DiscoverCharacteristics p) svcs)"
  by (induction svcs) auto

lemma step_settles:
  assumes "list_ex (settles k) (snd (step w i s))"
  shows "callPromise i = Some k \<or> holdsPromise s k"
  using assms
  by (cases i)
     (auto simp: step_defs Let_def settles_complete holdsPromise_def list_ex_append
        split: option.splits list.splits find_result.splits prod.splits if_splits)

lemma step_holds:
  assumes "holdsPromise (fst (step w i s)) k"
  shows "callPromise i = Some k \<or> holdsPromise s k"
  using assms
  by (cases i)
     (auto simp: step_defs Let_def holdsPromise_def
        split: option.splits list.splits find_result.splits prod.splits if_splits)

lemma run_never_settles:
  assumes "\<not> holdsPromise s k" and "\<not> list_ex (\<lambda>(w, i). callPromise i = Some k) tr"
  shows "\<not> list_ex (settles k) (snd (run tr s))"
  using assms
proof (induction tr arbitrary: s)
  case Nil
  then show ?case by simp
next
  case (Cons a tr)
  obtain w i where a: "a = (w, i)" by (cases a)
  from Cons.prems a have 1: "callPromise i \<noteq> Some k"
    and 2: "\<not> list_ex (\<lambda>(w, i). callPromise i = Some k) tr"
    by simp_all
  from 1 Cons.prems(1) have 3: "\<not> list_ex (settles k) (snd (step w i s))"
    using step_settles by blast
  from 1 Cons.prems(1) have "\<not> holdsPromise (fst (step w i s)) k"
    using step_holds by blast
  from Cons.IH [OF this 2] 3 show ?case
    by (simp only: a snd_run_Cons list_ex_append) simp
qed

text \<open>
  C2. A read of a characteristic that is found only asks the Adapter for the value: the
  completion handler of the call is dropped, the manager is unchanged, and the promise of
  the call is settled by nothing that happens afterwards (as long as no later call is
  given the same promise). The value that arrives in \<open>didUpdateValueFor\<close> goes to the
  log and to the notification callback only.
\<close>

theorem readCharacteristic_promise_never_settled:
  assumes "getPeripheral w s peripheralId = Some peripheral"
    and "findCharacteristic w peripheral (CBUUID_string w serviceUuid)
           (CBUUID_string w characteristicUuid) = Completion (Some characteristic)"
    and "\<not> holdsPromise s k"
    and "\<not> list_ex (\<lambda>(w, i). callPromise i = Some k) tr"
  shows "step w (CallReadCharacteristic k peripheralId serviceUuid characteristicUuid) s
           = (s, [ReadValue peripheral characteristic])
         \<and> \<not> list_ex (settles k)
              (snd (run ((w, CallReadCharacteristic k peripheralId serviceUuid characteristicUuid)
                           # tr) s))"
proof -
  have r: "step w (CallReadCharacteristic k peripheralId serviceUuid characteristicUuid) s
             = (s, [ReadValue peripheral characteristic])"
    using assms(1,2) by (simp add: rn_readCharacteristic_def readCharacteristic_def Let_def)
  from run_never_settles [OF assms(3,4)] r show ?thesis
    by (simp only: snd_run_Cons list_ex_append) simp
qed

lemma holdsPromise_connectedManager: "\<not> holdsPromise connectedManager k"
  by (simp add: holdsPromise_def connectedManager_eq)

theorem readCharacteristic_promise_never_settled_witness:
  "getPeripheral samplePlatform connectedManager sensorId = Some 11
   \<and> \<not> holdsPromise connectedManager 7
   \<and> run [(samplePlatform, CallReadCharacteristic 7 sensorId ''180D'' ''2A37''),
           (samplePlatform, EvDidUpdateValue 11 heartRateMeasurement None)] connectedManager
       = (connectedManager,
          [ReadValue 11 heartRateMeasurement,
           SendEvent (onLog (LogDataReceived ''0148'')),
           Print (LogDataReceived ''0148''),
           SendEvent (onNotificationReceived sensorId ''2A37'' ''0148'')])
   \<and> \<not> list_ex (settles 7)
        (snd (run [(samplePlatform, CallReadCharacteristic 7 sensorId ''180D'' ''2A37''),
                   (samplePlatform, EvDidUpdateValue 11 heartRateMeasurement None)]
                connectedManager))"
proof -
  have t: "\<not> list_ex (\<lambda>(w, i). callPromise i = Some 7)
              [(samplePlatform, EvDidUpdateValue 11 heartRateMeasurement None)]"
    by simp
  note r = readCharacteristic_promise_never_settled
             [OF sample_lookup(1) sample_lookup(4) holdsPromise_connectedManager t]
  have e: "step samplePlatform (EvDidUpdateValue 11 heartRateMeasurement None) connectedManager
             = (connectedManager,
                [SendEvent (onLog (LogDataReceived ''0148'')), Print (LogDataReceived ''0148''),
                 SendEvent (onNotificationReceived sensorId ''2A37'' ''0148'')])"
    by (simp add: didUpdateValueFor_def log_ble_def heartRateMeasurement_def hexString_samples
        identifierString_def identifierOf_def connectedManager_eq samplePlatform_def Let_def)
  have "run [(samplePlatform, CallReadCharacteristic 7 sensorId ''180D'' ''2A37''),
           (samplePlatform, EvDidUpdateValue 11 heartRateMeasurement None)] connectedManager
       = (connectedManager,
          [ReadValue 11 heartRateMeasurement,
           SendEvent (onLog (LogDataReceived ''0148'')),
           Print (LogDataReceived ''0148''),
           SendEvent (onNotificationReceived sensorId ''2A37'' ''0148'')])"
    using r [THEN conjunct1] e by (simp del: step.simps)
  with r [THEN conjunct2] sample_lookup(1) holdsPromise_connectedManager show ?thesis
    by blast
qed

subsection \<open>Scan: duplicates\<close>

lemma shouldFilterDevice_scanFilter:
  "scanFilter s' = scanFilter s \<Longrightarrow> shouldFilterDevice s' device = shouldFilterDevice s device"
  by (simp add: shouldFilterDevice_def)

lemma didDiscover_emits:
  assumes "scanCallback s" and "\<not> shouldFilterDevice s (createBleDevice w p adv rssi)"
  shows "snd (didDiscover w p adv rssi s) = [SendEvent (onDeviceDiscovered (createBleDevice w p adv rssi))]"
    and "scanCallback (fst (didDiscover w p adv rssi s))"
    and "scanFilter (fst (didDiscover w p adv rssi s)) = scanFilter s"
  using assms by (simp_all add: didDiscover_def Let_def)

lemma startScan_fst:
  "scanCallback (fst (startScan w f opts s0))"
  "scanFilter (fst (startScan w f opts s0)) = f"
  "discoveredDevices (fst (startScan w f opts s0)) = Map.empty"
  by (simp_all add: startScan_def Let_def)

lemma startScan_effects:
  "\<exists>rest. snd (startScan w f opts s0) =
     ScanForPeripherals
       (case f of None \<Rightarrow> None | Some f' \<Rightarrow> map_option (map (CBUUID_string w)) (f_serviceUUIDs f'))
       (case opts of None \<Rightarrow> False | Some opts' \<Rightarrow> o_allowDuplicates opts') # rest"
  by (simp add: startScan_def Let_def split: option.splits)

lemma rn_startScan_fst:
  "scanCallback (fst (rn_startScan w k flt options s0))"
  "scanFilter (fst (rn_startScan w k flt options s0)) = bleFilterOf flt"
  "discoveredDevices (fst (rn_startScan w k flt options s0)) = Map.empty"
  using startScan_fst [of w "bleFilterOf flt" "bleOptionsOf options" s0]
  by (auto simp: rn_startScan_def split: prod.splits)

lemma allowDuplicates_bleOptionsOf:
  "(case bleOptionsOf options of None \<Rightarrow> False | Some opts' \<Rightarrow> o_allowDuplicates opts')
     = forwardedAllowDuplicates options"
  by (simp add: bleOptionsOf_def forwardedAllowDuplicates_def defaultScanOptions_def
      split: option.splits)

lemma rn_startScan_effects:
  "\<exists>rest. snd (rn_startScan w k flt options s0)
     = ScanForPeripherals (forwardedServices w flt) (forwardedAllowDuplicates options) # rest"
proof -
  from startScan_effects [of w "bleFilterOf flt" "bleOptionsOf options" s0]
  obtain rest where "snd (startScan w (bleFilterOf flt) (bleOptionsOf options) s0)
      = ScanForPeripherals (forwardedServices w flt) (forwardedAllowDuplicates options) # rest"
    by (auto simp only: allowDuplicates_bleOptionsOf forwardedServices_def)
  then have "snd (rn_startScan w k flt options s0)
      = ScanForPeripherals (forwardedServices w flt) (forwardedAllowDuplicates options)
          # (rest @ [Resolve k JSNull])"
    by (auto simp: rn_startScan_def split: prod.splits)
  then show ?thesis by blast
qed

text \<open>
  C3, as the code has it. In every scan session, whatever \<open>allowDuplicates\<close> is, every
  observation that the Adapter delivers and that passes the filter sends one
  \<open>onDeviceDiscovered\<close> event: two observations, of the same peripheral or not, send two
  events. The manager only forwards \<open>allowDuplicates\<close> (false when absent) to the
  Adapter's scan request; \<open>discoveredDevices\<close> is written and never read.
\<close>

theorem every_observation_emitted:
  assumes "\<not> shouldFilterDevice (fst (rn_startScan w0 k flt options s0))
               (createBleDevice w1 p1 adv1 rssi1)"
    and "\<not> shouldFilterDevice (fst (rn_startScan w0 k flt options s0))
               (createBleDevice w2 p2 adv2 rssi2)"
  shows "snd (run [(w1, EvDidDiscover p1 adv1 rssi1), (w2, EvDidDiscover p2 adv2 rssi2)]
                (fst (rn_startScan w0 k flt options s0)))
           = [SendEvent (onDeviceDiscovered (createBleDevice w1 p1 adv1 rssi1)),
              SendEvent (onDeviceDiscovered (createBleDevice w2 p2 adv2 rssi2))]
         \<and> (\<exists>rest. snd (rn_startScan w0 k flt options s0)
               = ScanForPeripherals (forwardedServices w0 flt) (forwardedAllowDuplicates options)
                   # rest)"
proof -
  let ?s = "fst (rn_startScan w0 k flt options s0)"
  note d1 = didDiscover_emits [OF rn_startScan_fst(1) assms(1)]
  have "\<not> shouldFilterDevice (fst (didDiscover w1 p1 adv1 rssi1 ?s))
            (createBleDevice w2 p2 adv2 rssi2)"
    using assms(2) shouldFilterDevice_scanFilter [OF d1(3)] by simp
  note d2 = didDiscover_emits [OF d1(2) this]
  have "snd (run [(w1, EvDidDiscover p1 adv1 rssi1), (w2, EvDidDiscover p2 adv2 rssi2)] ?s)
          = snd (didDiscover w1 p1 adv1 rssi1 ?s)
            @ snd (didDiscover w2 p2 adv2 rssi2 (fst (didDiscover w1 p1 adv1 rssi1 ?s))) @ []"
    by (simp only: snd_run_Cons step.simps run.simps(1) snd_conv)
  then show ?thesis
    using rn_startScan_effects [of w0 k flt options s0] by (simp only: d1(1) d2(1)) simp
qed

theorem every_observation_emitted_witness:
  "\<not> shouldFilterDevice
        (fst (rn_startScan samplePlatform 1 None
                (Some (noOptions\<lparr>od_allowDuplicates := Some False\<rparr>)) initialManager))
        (createBleDevice samplePlatform 11 sampleAdvertisement (- 50))
   \<and> forwardedAllowDuplicates (Some (noOptions\<lparr>od_allowDuplicates := Some False\<rparr>)) = False
   \<and> snd (run [(samplePlatform, EvDidDiscover 11 sampleAdvertisement (- 50)),
                (samplePlatform, EvDidDiscover 11 sampleAdvertisement (- 50))]
           (fst (rn_startScan samplePlatform 1 None
                   (Some (noOptions\<lparr>od_allowDuplicates := Some False\<rparr>)) initialManager)))
       = [SendEvent (onDeviceDiscovered sampleDevice), SendEvent (onDeviceDiscovered sampleDevice)]
   \<and> (\<exists>rest. snd (rn_startScan samplePlatform 1 None
                        (Some (noOptions\<lparr>od_allowDuplicates := Some False\<rparr>)) initialManager)
               = ScanForPeripherals None False # rest)"
proof -
  have h: "\<not> shouldFilterDevice
        (fst (rn_startScan samplePlatform 1 None
                (Some (noOptions\<lparr>od_allowDuplicates := Some False\<rparr>)) initialManager))
        (createBleDevice samplePlatform 11 sampleAdvertisement (- 50))"
    by (simp add: shouldFilterDevice_def rn_startScan_fst(2) bleFilterOf_def)
  have f: "forwardedAllowDuplicates (Some (noOptions\<lparr>od_allowDuplicates := Some False\<rparr>)) = False"
    "forwardedServices samplePlatform None = None"
    by (simp_all add: forwardedAllowDuplicates_def forwardedServices_def bleFilterOf_def)
  from every_observation_emitted [OF h h] h f show ?thesis
    by (simp only: createBleDevice_sample) simp
qed

text \<open>
  C3, as stated, fails: in a session started with \<open>allowDuplicates = false\<close>, two
  observations of the same peripheral send two \<open>onDeviceDiscovered\<close> events.
\<close>

theorem duplicate_observation_emitted_twice:
  "snd (run [(samplePlatform, CallStartScan 1 None (Some (noOptions\<lparr>od_allowDuplicates := Some False\<rparr>))),
             (samplePlatform, EvDidDiscover 11 sampleAdvertisement (- 50)),
             (samplePlatform, EvDidDiscover 11 sampleAdvertisement (- 50))] initialManager)
     = [ScanForPeripherals None False, ScheduleScanTimer 10, Resolve 1 JSNull,
        SendEvent (onDeviceDiscovered sampleDevice), SendEvent (onDeviceDiscovered sampleDevice)]
   \<and> length (filter isDeviceDiscovered
        (snd (run [(samplePlatform, CallStartScan 1 None (Some (noOptions\<lparr>od_allowDuplicates := Some False\<rparr>))),
                   (samplePlatform, EvDidDiscover 11 sampleAdvertisement (- 50)),
                   (samplePlatform, EvDidDiscover 11 sampleAdvertisement (- 50))] initialManager)))
       = 2"
  by (simp add: rn_startScan_def startScan_def bleFilterOf_def bleOptionsOf_def didDiscover_def
      shouldFilterDevice_def createBleDevice_sample initialManager_def noOptions_def
      BleScanMode_of_rawValue_def Let_def)

subsection \<open>Scan: the filter\<close>

text \<open>
  What \<open>shouldFilterDevice\<close> checks: the minimum RSSI, the exact name and the name prefix,
  each only when present. It reads neither the manufacturer data nor the service UUIDs of
  the filter (the service UUIDs go to the Adapter's scan request).
\<close>

lemma shouldFilterDevice_iff:
  "shouldFilterDevice s device \<longleftrightarrow>
     (\<exists>flt. scanFilter s = Some flt
        \<and> ((\<exists>minRssi. f_minRssi flt = Some minRssi \<and> d_rssi device < minRssi)
           \<or> (\<exists>n. f_name flt = Some n \<and> d_name device \<noteq> Some n)
           \<or> (\<exists>namePrefix. f_namePrefix flt = Some namePrefix
                 \<and> (\<forall>n. d_name device = Some n \<longrightarrow> \<not> starts_with n namePrefix))))"
  by (auto simp: shouldFilterDevice_def split: option.splits)

lemma shouldFilterDevice_ignores:
  "shouldFilterDevice (s\<lparr>scanFilter := Some (flt\<lparr>f_manufacturerData := m, f_serviceUUIDs := us\<rparr>)\<rparr>) device
     = shouldFilterDevice (s\<lparr>scanFilter := Some flt\<rparr>) device"
  by (simp add: shouldFilterDevice_def)

text \<open>
  C4. The manufacturer data of the filter never changes what \<open>shouldFilterDevice\<close>
  answers. A filter whose only field is the manufacturer data \<open>4c00\<close> is stored with
  that field, and a device advertising the manufacturer data \<open>ffff\<close> is still emitted.
\<close>

theorem manufacturerData_filter_not_applied:
  "(\<forall>s flt m device.
      shouldFilterDevice (s\<lparr>scanFilter := Some (flt\<lparr>f_manufacturerData := m\<rparr>)\<rparr>) device
        = shouldFilterDevice (s\<lparr>scanFilter := Some flt\<rparr>) device)
   \<and> bleFilterOf (Some (noFilter\<lparr>fd_manufacturerData := Some ''4c00''\<rparr>))
       = Some \<lparr>f_serviceUUIDs = None, f_name = None, f_namePrefix = None,
               f_manufacturerData = Some [0x4c, 0x00], f_minRssi = None\<rparr>
   \<and> d_manufacturerData sampleDevice = Some ''ffff''
   \<and> snd (run [(samplePlatform,
                 CallStartScan 1 (Some (noFilter\<lparr>fd_manufacturerData := Some ''4c00''\<rparr>)) None),
                (samplePlatform, EvDidDiscover 11 sampleAdvertisement (- 50))] initialManager)
       = [ScanForPeripherals None False, ScheduleScanTimer 10, Resolve 1 JSNull,
          SendEvent (onDeviceDiscovered sampleDevice)]"
proof -
  have "shouldFilterDevice (s\<lparr>scanFilter := Some (flt\<lparr>f_manufacturerData := m\<rparr>)\<rparr>) device
          = shouldFilterDevice (s\<lparr>scanFilter := Some flt\<rparr>) device" for s flt m device
    by (simp add: shouldFilterDevice_def)
  moreover have "bleFilterOf (Some (noFilter\<lparr>fd_manufacturerData := Some ''4c00''\<rparr>))
       = Some \<lparr>f_serviceUUIDs = None, f_name = None, f_namePrefix = None,
               f_manufacturerData = Some [0x4c, 0x00], f_minRssi = None\<rparr>"
    by (simp add: bleFilterOf_def noFilter_def Data_hexString_4c00)
  moreover have "d_manufacturerData sampleDevice = Some ''ffff''"
    by (simp add: sampleDevice_def)
  moreover have "snd (run [(samplePlatform,
                 CallStartScan 1 (Some (noFilter\<lparr>fd_manufacturerData := Some ''4c00''\<rparr>)) None),
                (samplePlatform, EvDidDiscover 11 sampleAdvertisement (- 50))] initialManager)
       = [ScanForPeripherals None False, ScheduleScanTimer 10, Resolve 1 JSNull,
          SendEvent (onDeviceDiscovered sampleDevice)]"
    by (simp add: rn_startScan_def startScan_def bleFilterOf_def bleOptionsOf_def didDiscover_def
        shouldFilterDevice_def createBleDevice_sample initialManager_def noFilter_def
        defaultScanOptions_def Data_hexString_4c00 Let_def)
  ultimately show ?thesis by blast
qed

subsection \<open>Disconnect and automatic reconnect\<close>

lemma autoReconnect_step:
  assumes "\<not> isConnectFor uuid (w, i)" and "autoReconnectMap s uuid = Some False"
  shows "autoReconnectMap (fst (step w i s)) uuid = Some False"
  using assms
  by (cases i)
     (auto simp: rn_startScan_def startScan_def rn_stopScan_def stopScan_def rn_connect_def
        connect_def connectToPeripheral_def rn_disconnect_def disconnect_eq rn_isConnected_def
        rn_readCharacteristic_def readCharacteristic_def rn_writeCharacteristic_def
        writeCharacteristic_def rn_enableNotifications_def enableNotifications_def
        rn_discoverServices_def discoverServices_def rn_getBluetoothState_def
        rn_getConnectionState_def rn_requestMTU_def requestMTU_def
        rn_updateConnectionParameters_def updateConnectionParameters_def rn_readRSSI_def
        readRSSI_def rn_requestPermissions_def centralManagerDidUpdateState_def didDiscover_def
        didConnect_def didDisconnectPeripheral_def didFailToConnect_def didDiscoverServices_def
        didDiscoverCharacteristicsFor_def didUpdateValueFor_def didUpdateNotificationStateFor_def
        didWriteValueFor_def didReadRSSI_def connectTimeoutBlock_def reconnectBlock_def Let_def
        split: option.splits list.splits find_result.splits prod.splits if_splits)

lemma autoReconnect_run:
  assumes "\<not> list_ex (isConnectFor uuid) tr" and "autoReconnectMap s uuid = Some False"
  shows "autoReconnectMap (fst (run tr s)) uuid = Some False"
  using assms
proof (induction tr arbitrary: s)
  case Nil
  then show ?case by simp
next
  case (Cons a tr)
  obtain w i where a: "a = (w, i)" by (cases a)
  from Cons.prems a have 1: "\<not> isConnectFor uuid (w, i)" and 2: "\<not> list_ex (isConnectFor uuid) tr"
    by simp_all
  from autoReconnect_step [OF 1 Cons.prems(2)]
  have "autoReconnectMap (fst (run tr (fst (step w i s)))) uuid = Some False"
    by (rule Cons.IH [OF 2])
  then show ?case by (simp only: a fst_run_Cons)
qed

lemma didDisconnect_no_reconnect:
  assumes "autoReconnectMap s (identifierOf w p) = Some False"
  shows "\<not> list_ex isScheduleReconnect (snd (didDisconnectPeripheral w p error s))"
  using assms
  by (simp add: didDisconnectPeripheral_def log_ble_def connectionStateChanged_def)

text \<open>When the identifier does not parse or names no peripheral the manager holds,
  \<open>disconnect\<close> is rejected: nothing is written and nothing goes to the Adapter.\<close>

lemma disconnect_unknown_rejected:
  assumes "UUID_uuidString w ident = None
           \<or> (\<exists>uuid. UUID_uuidString w ident = Some uuid \<and> peripherals s uuid = None)"
  shows "rn_disconnect w k ident s = (s, [Reject k ''BleError'' ''Peripheral not found''])"
  using assms by (auto simp: rn_disconnect_def disconnect_eq bleError_def)

lemma disconnect_known:
  assumes "UUID_uuidString w ident = Some uuid" and "peripherals s uuid = Some peripheral"
  shows "rn_disconnect w k ident s
           = (s\<lparr>autoReconnectMap := (autoReconnectMap s)(uuid \<mapsto> False)\<rparr>,
              [CancelPeripheralConnection peripheral, Resolve k JSNull])"
  using assms by (simp add: rn_disconnect_def disconnect_eq)

lemma disconnect_known_no_reconnect:
  assumes "UUID_uuidString w ident = Some uuid" and "peripherals s uuid = Some peripheral"
    and "\<not> list_ex (isConnectFor uuid) tr" and "identifierOf w' p' = uuid"
  shows "\<not> list_ex isScheduleReconnect
            (snd (step w' (EvDidDisconnect p' error)
                    (fst (run tr (fst (rn_disconnect w k ident s))))))"
proof -
  have "autoReconnectMap (fst (rn_disconnect w k ident s)) uuid = Some False"
    by (simp add: disconnect_known [OF assms(1,2)])
  from autoReconnect_run [OF assms(3) this] assms(4) show ?thesis
    by (simp add: didDisconnect_no_reconnect)
qed

subsection \<open>Delegate callbacks between the statements of \<open>disconnect\<close>\<close>

lemma complete_no_cancel: "CancelPeripheralConnection p \<notin> set (complete c v e)"
  by (cases c; cases e) simp_all

lemma delegate_no_cancel:
  assumes "isDelegateEvent i"
  shows "CancelPeripheralConnection p \<notin> set (snd (step w i s))"
  using assms
  by (cases i)
     (auto simp: centralManagerDidUpdateState_def didDiscover_def didConnect_def
        didDisconnectPeripheral_def didFailToConnect_def didDiscoverServices_def
        didDiscoverCharacteristicsFor_def didUpdateValueFor_def
        didUpdateNotificationStateFor_def didWriteValueFor_def didReadRSSI_def log_ble_def
        connectionStateChanged_def complete_no_cancel Let_def
        split: option.splits if_splits)

lemma interleave_Delegate:
  "fst (interleave (Delegate w i # sch) stmts s) = fst (interleave sch stmts (fst (step w i s)))"
  "snd (snd (interleave (Delegate w i # sch) stmts s))
     = snd (step w i s) @ snd (snd (interleave sch stmts (fst (step w i s))))"
  by (simp_all split: prod.splits)

lemma interleave_Statement:
  "fst (interleave (Statement # sch) (st # stmts) s) = fst (interleave sch stmts (fst (st s)))"
  "snd (snd (interleave (Statement # sch) (st # stmts) s))
     = snd (st s) @ snd (snd (interleave sch stmts (fst (st s))))"
  by (simp_all split: prod.splits)

lemma delegate_not_connect: "isDelegateEvent i \<Longrightarrow> \<not> isConnectFor uuid (w, i)"
  by (cases i) simp_all

lemma interleave_Nil_flag:
  assumes "list_all isDelegateSlot sch" and "autoReconnectMap s uuid = Some False"
  shows "autoReconnectMap (fst (interleave sch [] s)) uuid = Some False"
  using assms
proof (induction sch arbitrary: s)
  case Nil
  then show ?case by simp
next
  case (Cons a sch)
  show ?case
  proof (cases a)
    case Statement
    with Cons show ?thesis by simp
  next
    case (Delegate w i)
    with Cons.prems have d: "isDelegateEvent i" and r: "list_all isDelegateSlot sch"
      by simp_all
    from autoReconnect_step [OF delegate_not_connect [OF d] Cons.prems(2)]
    have "autoReconnectMap (fst (interleave sch [] (fst (step w i s)))) uuid = Some False"
      by (rule Cons.IH [OF r])
    then show ?thesis by (simp only: Delegate interleave_Delegate)
  qed
qed

text \<open>Once the flag is cleared, the rest of the body and the delegate keep it cleared.\<close>

lemma interleave_rest_flag:
  assumes "list_all isDelegateSlot sch" and "autoReconnectMap s uuid = Some False"
    and "stmts = drop n (disconnectStatements uuid peripheral completion)" and "1 \<le> n"
  shows "autoReconnectMap (fst (interleave sch stmts s)) uuid = Some False"
  using assms
proof (induction sch arbitrary: s stmts n)
  case Nil
  then show ?case by simp
next
  case (Cons a sch)
  show ?case
  proof (cases a)
    case (Delegate w i)
    with Cons.prems have d: "isDelegateEvent i" and r: "list_all isDelegateSlot sch"
      by simp_all
    from autoReconnect_step [OF delegate_not_connect [OF d] Cons.prems(2)]
    have "autoReconnectMap (fst (interleave sch stmts (fst (step w i s)))) uuid = Some False"
      by (rule Cons.IH [OF r _ Cons.prems(3,4)])
    then show ?thesis by (simp only: Delegate interleave_Delegate)
  next
    case Statement
    from Cons.prems have r: "list_all isDelegateSlot sch" by simp
    consider "n = 1" | "n = 2" | "3 \<le> n" using Cons.prems(4) by linarith
    then show ?thesis
    proof cases
      case 1
      have st: "stmts = (\<lambda>s. (s, [CancelPeripheralConnection peripheral]))
                  # drop 2 (disconnectStatements uuid peripheral completion)"
        using Cons.prems(3) 1 by (simp add: disconnectStatements_def)
      have "autoReconnectMap
              (fst (interleave sch (drop 2 (disconnectStatements uuid peripheral completion)) s))
              uuid = Some False"
        by (rule Cons.IH [OF r Cons.prems(2) refl]) simp
      then show ?thesis by (simp only: Statement st interleave_Statement fst_conv)
    next
      case 2
      have st: "stmts = (\<lambda>s. (s, complete completion JSNull None))
                  # drop 3 (disconnectStatements uuid peripheral completion)"
        using Cons.prems(3) 2 by (simp add: disconnectStatements_def)
      have "autoReconnectMap
              (fst (interleave sch (drop 3 (disconnectStatements uuid peripheral completion)) s))
              uuid = Some False"
        by (rule Cons.IH [OF r Cons.prems(2) refl]) simp
      then show ?thesis by (simp only: Statement st interleave_Statement fst_conv)
    next
      case 3
      then have st: "stmts = []"
        using Cons.prems(3) by (simp add: disconnectStatements_def)
      from interleave_Nil_flag [OF r Cons.prems(2)] show ?thesis
        by (simp add: Statement st)
    qed
  qed
qed

text \<open>
  In every interleaving of the body with delegate callbacks, once the cancel request is
  among the effects the flag is cleared.
\<close>

lemma interleave_cancel_flag:
  assumes "list_all isDelegateSlot sch"
    and "CancelPeripheralConnection peripheral
           \<in> set (snd (snd (interleave sch (disconnectStatements uuid peripheral completion) s)))"
  shows "autoReconnectMap
           (fst (interleave sch (disconnectStatements uuid peripheral completion) s)) uuid
         = Some False"
  using assms
proof (induction sch arbitrary: s)
  case Nil
  then show ?case by simp
next
  case (Cons a sch)
  show ?case
  proof (cases a)
    case (Delegate w i)
    with Cons.prems have d: "isDelegateEvent i" and r: "list_all isDelegateSlot sch"
      by simp_all
    from Cons.prems(2) delegate_no_cancel [OF d, of peripheral w s]
    have "CancelPeripheralConnection peripheral
            \<in> set (snd (snd (interleave sch (disconnectStatements uuid peripheral completion)
                                (fst (step w i s)))))"
      by (simp only: Delegate interleave_Delegate set_append Un_iff) blast
    from Cons.IH [OF r this] show ?thesis
      by (simp only: Delegate interleave_Delegate)
  next
    case Statement
    from Cons.prems have r: "list_all isDelegateSlot sch" by simp
    let ?s1 = "s\<lparr>autoReconnectMap := (autoReconnectMap s)(uuid \<mapsto> False)\<rparr>"
    have "autoReconnectMap
            (fst (interleave sch (drop 1 (disconnectStatements uuid peripheral completion)) ?s1))
            uuid = Some False"
      by (rule interleave_rest_flag [OF r _ refl]) simp_all
    then show ?thesis
      by (simp only: Statement disconnectStatements_def interleave_Statement fst_conv drop_Suc_Cons
          drop_0 One_nat_def)
  qed
qed

text \<open>
  The order of the first two statements is what this rests on: with the request issued
  first, a disconnect event that arrives before the flag is written schedules a reconnect.
\<close>

lemma request_before_clearing_reconnects:
  "list_ex isScheduleReconnect
     (snd (snd (interleave [Statement, Delegate samplePlatform (EvDidDisconnect 11 None)]
                  [\<lambda>s. (s, [CancelPeripheralConnection 11]),
                   \<lambda>s. (s\<lparr>autoReconnectMap := (autoReconnectMap s)(101 \<mapsto> False)\<rparr>, []),
                   \<lambda>s. (s, complete (PromiseCompletion 9) JSNull None)]
                  connectedManager)))"
  by (simp add: connectedManager_eq didDisconnectPeripheral_def log_ble_def
      connectionStateChanged_def identifierOf_def samplePlatform_def)

text \<open>
  C5, as the code has it. A \<open>disconnect\<close> call for an identifier that does not parse, or
  that names no peripheral the manager holds, is rejected as "Peripheral not found": it
  issues no Adapter request and leaves the auto-reconnect flag as it was. Otherwise the
  call clears the flag of the identifier before it issues the Adapter's cancel request:
  however the delegate's callbacks fall between the statements of the call, once the
  request has been issued the flag is cleared, and a disconnect event for a peripheral with
  that identifier schedules no reconnect. The call then resolves its promise, and from
  then on, whatever happens to the manager, as long as no \<open>connect\<close> is called for that
  identifier, a disconnect event for a peripheral with that identifier schedules no
  reconnect.
\<close>

theorem disconnect_clears_autoReconnect:
  "(case UUID_uuidString w ident of
      None \<Rightarrow> rn_disconnect w k ident s = (s, [Reject k ''BleError'' ''Peripheral not found''])
    | Some uuid \<Rightarrow>
        (case peripherals s uuid of
           None \<Rightarrow> rn_disconnect w k ident s = (s, [Reject k ''BleError'' ''Peripheral not found''])
         | Some peripheral \<Rightarrow>
             rn_disconnect w k ident s
               = runStatements (disconnectStatements uuid peripheral (PromiseCompletion k)) s
             \<and> rn_disconnect w k ident s
               = (s\<lparr>autoReconnectMap := (autoReconnectMap s)(uuid \<mapsto> False)\<rparr>,
                  [CancelPeripheralConnection peripheral, Resolve k JSNull])
             \<and> (\<forall>sch w' p' error.
                   list_all isDelegateSlot sch \<and> identifierOf w' p' = uuid
                   \<and> CancelPeripheralConnection peripheral
                        \<in> set (snd (snd (interleave sch
                              (disconnectStatements uuid peripheral (PromiseCompletion k)) s)))
                   \<longrightarrow>
                   \<not> list_ex isScheduleReconnect
                        (snd (step w' (EvDidDisconnect p' error)
                                (fst (interleave sch
                                   (disconnectStatements uuid peripheral (PromiseCompletion k)) s)))))
             \<and> (\<forall>tr w' p' error.
                   \<not> list_ex (isConnectFor uuid) tr \<and> identifierOf w' p' = uuid \<longrightarrow>
                   \<not> list_ex isScheduleReconnect
                        (snd (step w' (EvDidDisconnect p' error)
                                (fst (run tr (fst (rn_disconnect w k ident s)))))))))"
proof (cases "UUID_uuidString w ident")
  case None
  then show ?thesis using disconnect_unknown_rejected [of w ident s k] by simp
next
  case (Some uuid)
  show ?thesis
  proof (cases "peripherals s uuid")
    case None
    with Some show ?thesis using disconnect_unknown_rejected [of w ident s k] by simp
  next
    case (Some peripheral)
    note known = \<open>UUID_uuidString w ident = Some uuid\<close> Some
    have body: "rn_disconnect w k ident s
                  = runStatements (disconnectStatements uuid peripheral (PromiseCompletion k)) s"
      using known by (simp add: rn_disconnect_def disconnect_def)
    have during: "\<forall>sch w' p' error.
            list_all isDelegateSlot sch \<and> identifierOf w' p' = uuid
            \<and> CancelPeripheralConnection peripheral
                 \<in> set (snd (snd (interleave sch
                       (disconnectStatements uuid peripheral (PromiseCompletion k)) s)))
            \<longrightarrow>
            \<not> list_ex isScheduleReconnect
                 (snd (step w' (EvDidDisconnect p' error)
                         (fst (interleave sch
                            (disconnectStatements uuid peripheral (PromiseCompletion k)) s))))"
      using interleave_cancel_flag [of _ peripheral uuid "PromiseCompletion k" s]
      by (auto simp: didDisconnect_no_reconnect)
    have after: "\<forall>tr w' p' error.
            \<not> list_ex (isConnectFor uuid) tr \<and> identifierOf w' p' = uuid \<longrightarrow>
            \<not> list_ex isScheduleReconnect
                 (snd (step w' (EvDidDisconnect p' error)
                         (fst (run tr (fst (rn_disconnect w k ident s))))))"
      using disconnect_known_no_reconnect [OF known] by blast
    have whole: "rn_disconnect w k ident s
               = (s\<lparr>autoReconnectMap := (autoReconnectMap s)(uuid \<mapsto> False)\<rparr>,
                  [CancelPeripheralConnection peripheral, Resolve k JSNull])"
      by (rule disconnect_known [OF known])
    from body whole during after have all:
      "rn_disconnect w k ident s
         = runStatements (disconnectStatements uuid peripheral (PromiseCompletion k)) s
       \<and> rn_disconnect w k ident s
         = (s\<lparr>autoReconnectMap := (autoReconnectMap s)(uuid \<mapsto> False)\<rparr>,
            [CancelPeripheralConnection peripheral, Resolve k JSNull])
       \<and> (\<forall>sch w' p' error.
             list_all isDelegateSlot sch \<and> identifierOf w' p' = uuid
             \<and> CancelPeripheralConnection peripheral
                  \<in> set (snd (snd (interleave sch
                        (disconnectStatements uuid peripheral (PromiseCompletion k)) s)))
             \<longrightarrow>
             \<not> list_ex isScheduleReconnect
                  (snd (step w' (EvDidDisconnect p' error)
                          (fst (interleave sch
                             (disconnectStatements uuid peripheral (PromiseCompletion k)) s)))))
       \<and> (\<forall>tr w' p' error.
             \<not> list_ex (isConnectFor uuid) tr \<and> identifierOf w' p' = uuid \<longrightarrow>
             \<not> list_ex isScheduleReconnect
                  (snd (step w' (EvDidDisconnect p' error)
                          (fst (run tr (fst (rn_disconnect w k ident s)))))))"
      by (intro conjI)
    show ?thesis
      unfolding known option.case by (rule all)
  qed
qed

theorem disconnect_clears_autoReconnect_witness:
  "UUID_uuidString samplePlatform sensorId = Some 101
   \<and> peripherals connectedManager 101 = Some 11
   \<and> autoReconnectMap connectedManager 101 = Some True
   \<and> list_ex isScheduleReconnect
         (snd (step samplePlatform (EvDidDisconnect 11 None) connectedManager))
   \<and> rn_disconnect samplePlatform 9 sensorId connectedManager
        = (connectedManager\<lparr>autoReconnectMap := (autoReconnectMap connectedManager)(101 \<mapsto> False)\<rparr>,
           [CancelPeripheralConnection 11, Resolve 9 JSNull])
   \<and> CancelPeripheralConnection 11
        \<in> set (snd (snd (interleave [Statement, Statement]
                            (disconnectStatements 101 11 (PromiseCompletion 9)) connectedManager)))
   \<and> \<not> list_ex isScheduleReconnect
         (snd (step samplePlatform (EvDidDisconnect 11 None)
                 (fst (interleave [Statement, Statement]
                         (disconnectStatements 101 11 (PromiseCompletion 9)) connectedManager))))
   \<and> \<not> list_ex isScheduleReconnect
         (snd (step samplePlatform (EvDidDisconnect 11 None)
                 (fst (run [(samplePlatform, CallIsConnected 10 sensorId)]
                         (fst (rn_disconnect samplePlatform 9 sensorId connectedManager))))))"
proof -
  have a: "UUID_uuidString samplePlatform sensorId = Some 101"
    by (simp add: samplePlatform_def)
  have b: "peripherals connectedManager 101 = Some 11"
    by (simp add: connectedManager_eq)
  have c: "autoReconnectMap connectedManager 101 = Some True"
    by (simp add: connectedManager_eq)
  have e: "list_ex isScheduleReconnect
             (snd (step samplePlatform (EvDidDisconnect 11 None) connectedManager))"
    by (simp add: connectedManager_eq didDisconnectPeripheral_def log_ble_def
        connectionStateChanged_def identifierOf_def samplePlatform_def)
  have f: "\<not> list_ex (isConnectFor 101) [(samplePlatform, CallIsConnected 10 sensorId)]
           \<and> identifierOf samplePlatform 11 = 101"
    by (simp add: identifierOf_def samplePlatform_def)
  have g: "list_all isDelegateSlot [Statement, Statement]"
    by simp
  have h: "CancelPeripheralConnection 11
        \<in> set (snd (snd (interleave [Statement, Statement]
                            (disconnectStatements 101 11 (PromiseCompletion 9)) connectedManager)))"
    by (simp add: disconnectStatements_def)
  note t = disconnect_clears_autoReconnect
         [where w = samplePlatform and ident = sensorId and k = 9 and s = connectedManager,
          unfolded a b option.case]
  from t have whole: "rn_disconnect samplePlatform 9 sensorId connectedManager
          = (connectedManager\<lparr>autoReconnectMap := (autoReconnectMap connectedManager)(101 \<mapsto> False)\<rparr>,
             [CancelPeripheralConnection 11, Resolve 9 JSNull])"
    by (rule conjunct2 [THEN conjunct1])
  from t have during: "\<forall>sch w' p' error.
             list_all isDelegateSlot sch \<and> identifierOf w' p' = 101
             \<and> CancelPeripheralConnection 11
                  \<in> set (snd (snd (interleave sch
                        (disconnectStatements 101 11 (PromiseCompletion 9)) connectedManager)))
             \<longrightarrow>
             \<not> list_ex isScheduleReconnect
                  (snd (step w' (EvDidDisconnect p' error)
                          (fst (interleave sch
                             (disconnectStatements 101 11 (PromiseCompletion 9))
                             connectedManager))))"
    by (rule conjunct2 [THEN conjunct2, THEN conjunct1])
  from t have after: "\<forall>tr w' p' error.
             \<not> list_ex (isConnectFor 101) tr \<and> identifierOf w' p' = 101 \<longrightarrow>
             \<not> list_ex isScheduleReconnect
                  (snd (step w' (EvDidDisconnect p' error)
                          (fst (run tr (fst (rn_disconnect samplePlatform 9 sensorId
                                               connectedManager))))))"
    by (rule conjunct2 [THEN conjunct2, THEN conjunct2])
  from during g h f have d1: "\<not> list_ex isScheduleReconnect
         (snd (step samplePlatform (EvDidDisconnect 11 None)
                 (fst (interleave [Statement, Statement]
                         (disconnectStatements 101 11 (PromiseCompletion 9)) connectedManager))))"
    by blast
  from after f have d2: "\<not> list_ex isScheduleReconnect
         (snd (step samplePlatform (EvDidDisconnect 11 None)
                 (fst (run [(samplePlatform, CallIsConnected 10 sensorId)]
                         (fst (rn_disconnect samplePlatform 9 sensorId connectedManager))))))"
    by blast
  from a b c e whole h d1 d2 show ?thesis
    by (intro conjI)
qed

text \<open>
  C5, as stated, fails for an identifier that names no peripheral the manager holds:
  \<open>connect\<close> with \<open>autoReconnect = true\<close> writes the flag and is rejected, the
  \<open>disconnect\<close> that follows is rejected at the guard, and the flag is still set.
\<close>

theorem rejected_disconnect_keeps_flag:
  "autoReconnectMap
     (fst (run [(samplePlatform, CallConnect 2 otherId 30 True None),
                (samplePlatform, CallDisconnect 3 otherId)] initialManager)) 102 = Some True
   \<and> snd (run [(samplePlatform, CallConnect 2 otherId 30 True None),
                (samplePlatform, CallDisconnect 3 otherId)] initialManager)
       = [Reject 2 ''BleError'' ''Peripheral not found'',
          Reject 3 ''BleError'' ''Peripheral not found'']"
  by (simp add: rn_connect_def connect_def rn_disconnect_def disconnect_eq bleError_def
      connectionParametersOf_def initialManager_def samplePlatform_def sensorId_def otherId_def
      Let_def)

end
